theory Spec2Isabelle
  imports Complex_Main "HOL-Library.Log_Nat"
begin

section \<open>The bidding agent (src/agents/shared/intelligent-agent.ts)\<close>

text \<open>
  The class \<open>IntelligentBiddingAgent\<close> is modelled by the record \<open>agent\<close>, holding the
  fields its coordination logic reads and writes. The wallet, the signers, the HTTP
  clients and the language model are external collaborators: what they return is an
  argument of the function that awaits them. A JavaScript \<open>number\<close> holding an amount
  of money is the rational (\<open>rat\<close>) that the double denotes; a timer handle returned by
  \<open>setInterval\<close> is a natural number.
\<close>

record agent =
  agentName :: string
  maxBid :: rat
  isActive :: bool
  monitoringInterval :: "nat option"
  auctionEndMonitoringInterval :: "nat option"
  lastRefundAmount :: "rat option"
  currentAdSpotId :: string
  lastBidAmount :: rat
  isInAIReasoning :: bool
  refundPending :: bool

text \<open>The field initialisers and the constructor of the class.\<close>

definition new_agent :: "string \<Rightarrow> rat \<Rightarrow> agent" where
  "new_agent name mb =
     \<lparr> agentName = name, maxBid = mb, isActive = True,
       monitoringInterval = None, auctionEndMonitoringInterval = None,
       lastRefundAmount = None, currentAdSpotId = [], lastBidAmount = 0,
       isInAIReasoning = False, refundPending = False \<rparr>"

subsection \<open>Numbers\<close>

text \<open>
  A JavaScript \<open>number\<close> is an IEEE 754 double. A finite double is modelled by the
  rational number it denotes, so a comparison of two numbers is the comparison of the
  rationals. The result of an arithmetic operation is the exact result rounded to the
  nearest double, a tie going to the double with the even significand: \<open>to_double\<close>.
  \<open>binade x\<close> is the exponent \<open>e\<close> with \<open>2 ^ e \<le> \<bar>x\<bar> < 2 ^ (e + 1)\<close>; the doubles of that
  binade are the multiples of \<open>2 ^ (e - 52)\<close>, and those below \<open>2 ^ - 1022\<close> (the
  subnormal ones) the multiples of \<open>2 ^ - 1074\<close>. A literal such as \<open>0.08\<close> denotes
  \<open>to_double (8 / 100)\<close>. No operation of the code modelled here overflows: the
  difference of a finite double and \<open>0.08\<close> is finite, and so is the difference of two
  token balances.
\<close>

definition binade :: "rat \<Rightarrow> int" where
  "binade x =
     (let (p, q) = quotient_of \<bar>x\<bar>;
          e = bitlen p - bitlen q
      in if power_int 2 e \<le> \<bar>x\<bar> then e else e - 1)"

definition round_half_even :: "rat \<Rightarrow> int" where
  "round_half_even r =
     (let f = \<lfloor>r\<rfloor>; d = r - of_int f
      in if d < 1 / 2 then f
         else if 1 / 2 < d then f + 1
         else if even f then f else f + 1)"

definition to_double :: "rat \<Rightarrow> rat" where
  "to_double x =
     (if x = 0 then 0
      else (let ulp = power_int 2 (max (binade x) (- 1022) - 52)
            in of_int (round_half_even (x / ulp)) * ulp))"

text \<open>The subtraction \<open>a - b\<close> of two numbers.\<close>

definition js_minus :: "rat \<Rightarrow> rat \<Rightarrow> rat" where
  "js_minus a b = to_double (a - b)"

subsection \<open>The place_bid tool\<close>

text \<open>
  \<open>a || b\<close> on an optional string (the empty string is falsy) and \<open>a || null\<close> on an
  optional number (zero is falsy).
\<close>

definition str_or :: "string option \<Rightarrow> string \<Rightarrow> string" where
  "str_or a b = (case a of None \<Rightarrow> b | Some s \<Rightarrow> if s = [] then b else s)"

definition num_or_null :: "rat option \<Rightarrow> rat option" where
  "num_or_null a = (case a of None \<Rightarrow> None | Some x \<Rightarrow> if x = 0 then None else Some x)"

record bid_request =
  req_spot :: string
  req_proposed :: rat
  req_reasoning :: string

record negotiation =
  yourProposal :: "rat option"
  minimumToWin :: "rat option"
  neg_currentBid :: "rat option"
  neg_message :: "string option"
  suggestion :: "rat option"

text \<open>
  What \<open>devnetClient.post\<close> does: it resolves with a status and a body, or it throws an
  error that may carry a response (status and negotiation data) and has a message.
\<close>

datatype post_outcome =
    Resolved nat bool rat int string
  | Thrown "nat option" "negotiation option" string

text \<open>
  The JSON the tool returns, one constructor per shape. The explanatory \<open>message\<close>
  texts built with \<open>toFixed\<close> are left out of the over-budget and accepted shapes.
\<close>

datatype bid_result =
    OverBudget rat rat rat
  | BidAccepted rat int string
  | BidFailed string
  | ProposalRejected "rat option" "rat option" "rat option" string "rat option"
  | NeedsNegotiation "rat option" "rat option" string "rat option"

definition neg_field :: "negotiation option \<Rightarrow> (negotiation \<Rightarrow> 'a option) \<Rightarrow> 'a option" where
  "neg_field n f = (case n of None \<Rightarrow> None | Some d \<Rightarrow> f d)"

text \<open>
  \<open>placeBidTool.execute\<close>. The result is the returned JSON, the agent (whose
  \<open>lastBidAmount\<close> an accepted bid updates) and the list of bid requests posted to the
  server. The server is any function from the request to the outcome of the post.
\<close>

definition placeBid ::
  "agent \<Rightarrow> (bid_request \<Rightarrow> post_outcome) \<Rightarrow> string option \<Rightarrow> rat \<Rightarrow> string
     \<Rightarrow> bid_result \<times> agent \<times> bid_request list" where
  "placeBid ag server adSpotId proposedAmount reasoning =
     (let spotId = str_or adSpotId (currentAdSpotId ag);
          maxAllowedBid = js_minus (maxBid ag) (to_double (8 / 100))
      in if proposedAmount > maxAllowedBid
         then (OverBudget proposedAmount maxAllowedBid (maxBid ag), ag, [])
         else
           (let rq = \<lparr> req_spot = spotId, req_proposed = proposedAmount,
                        req_reasoning = reasoning \<rparr>
            in case server rq of
                 Resolved status ok cur ends tx \<Rightarrow>
                   if status = 200 \<and> ok
                   then (BidAccepted cur ends tx, ag\<lparr>lastBidAmount := cur\<rparr>, [rq])
                   else (BidFailed ''Bid failed'', ag, [rq])
               | Thrown status neg msg \<Rightarrow>
                   if status = Some 400
                   then (ProposalRejected
                           (num_or_null (neg_field neg yourProposal))
                           (num_or_null (neg_field neg minimumToWin))
                           (num_or_null (neg_field neg neg_currentBid))
                           (str_or (neg_field neg neg_message) ''Proposal too low'')
                           (num_or_null (neg_field neg suggestion)), ag, [rq])
                   else if status = Some 402
                   then (NeedsNegotiation
                           (num_or_null (neg_field neg minimumToWin))
                           (num_or_null (neg_field neg neg_currentBid))
                           (str_or (neg_field neg neg_message) ''Negotiation required'')
                           (num_or_null (neg_field neg suggestion)), ag, [rq])
                   else (BidFailed msg, ag, [rq])))"

subsection \<open>Payment for an ad event\<close>

datatype ad_event_type = Impression | Click

record ad_event =
  eventId :: string
  ev_type :: ad_event_type
  campaignId :: string
  creativeId :: string
  ev_timestamp :: string
  bidAmount :: rat

text \<open>
  The messages are template strings over the numbers involved; a constructor carries the
  interpolated values. \<open>logAction\<close> only writes to the console: the calls are collected
  in a list, in order, with the action type first.
\<close>

datatype payment_message =
    BlockedMaxBid rat rat
  | BlockedThreshold rat rat
  | InsufficientFunds rat rat
  | PaidFor rat ad_event_type
  | PaymentSettled

record payment_result =
  success :: bool
  pay_message :: payment_message
  txHash :: "string option"

type_synonym action_log = "(string \<times> payment_message) list"

definition SAFETY_THRESHOLD :: rat where
  "SAFETY_THRESHOLD = 10"

text \<open>
  \<open>processEventPayment\<close>. \<open>wallet\<close> is the USDC balance of the agent's wallet, which
  \<open>getUSDCBalance\<close> reads; \<open>mockTxHash\<close> is the random hash the method makes up. The
  result is the returned object, the logged actions and the wallet balance afterwards:
  the method simulates the transfer and moves no funds.
\<close>

definition processEventPayment ::
  "agent \<Rightarrow> rat \<Rightarrow> string \<Rightarrow> ad_event \<Rightarrow> payment_result \<times> action_log \<times> rat" where
  "processEventPayment ag wallet mockTxHash event =
     (let fairAmount = bidAmount event
      in if fairAmount > maxBid ag
         then (\<lparr> success = False, pay_message = BlockedMaxBid fairAmount (maxBid ag),
                  txHash = None \<rparr>,
               [(''payment_blocked'', BlockedMaxBid fairAmount (maxBid ag))], wallet)
         else if fairAmount > SAFETY_THRESHOLD
         then (\<lparr> success = False, pay_message = BlockedThreshold fairAmount SAFETY_THRESHOLD,
                  txHash = None \<rparr>,
               [(''payment_blocked'', BlockedThreshold fairAmount SAFETY_THRESHOLD)], wallet)
         else
           (let currentBalance = wallet
            in if currentBalance < fairAmount
               then (\<lparr> success = False,
                        pay_message = InsufficientFunds currentBalance fairAmount,
                        txHash = None \<rparr>,
                     [(''payment_failed'', InsufficientFunds currentBalance fairAmount)],
                     wallet)
               else (\<lparr> success = True, pay_message = PaymentSettled,
                        txHash = Some mockTxHash \<rparr>,
                     [(''payment_sent'', PaidFor fairAmount (ev_type event))], wallet)))"

definition payment_attempted :: "payment_result \<times> action_log \<times> rat \<Rightarrow> bool" where
  "payment_attempted r = (''payment_sent'' \<in> set (map fst (fst (snd r))))"

section \<open>The status query (src/app/api/status/route.ts)\<close>

text \<open>
  The winner and the winner's ad image travel as JSON. The agent reads the winner both as
  an object with an \<open>agentId\<close> and as a bare string, and the image as an object with a
  \<open>url\<close>; the demo spot answers with a bare string for each.
\<close>

datatype json_winner = WinnerObj "string option" | WinnerStr string

datatype json_image = ImageObj "string option" | ImageStr string

record stored_bid =
  bid_agentId :: string
  bid_amount :: rat
  bid_timestamp :: int
  bid_txHash :: string
  bid_thinking :: "string option"
  bid_strategy :: "string option"
  bid_reasoning :: "string option"
  bid_reflection :: "string option"

text \<open>
  The record \<open>getAdSpotRecord\<close> finds (its declaration is in lib/db, which is not part of
  the sources: the fields are the ones the route reads). Times are milliseconds.
\<close>

record ad_spot_record =
  rec_currentBid :: "rat option"
  rec_currentWinner :: "json_winner option"
  rec_auctionStartTime :: int
  rec_auctionEnded :: "bool option"
  rec_winnerAdImage :: "json_image option"
  rec_bidHistory :: "stored_bid list"

record status_body =
  st_adSpotId :: string
  st_currentBid :: "rat option"
  st_currentWinner :: "json_winner option"
  st_timeRemaining :: "int option"
  st_auctionEnded :: bool
  st_winnerAdImage :: "json_image option"
  st_bidHistory :: "stored_bid list"

datatype status_response =
    Status200 status_body
  | Status400 string
  | Status500 string

text \<open>\<open>x || false\<close> on an optional boolean and \<open>x || null\<close> on an optional image.\<close>

definition bool_or_false :: "bool option \<Rightarrow> bool" where
  "bool_or_false b = (case b of None \<Rightarrow> False | Some v \<Rightarrow> v)"

definition image_or_null :: "json_image option \<Rightarrow> json_image option" where
  "image_or_null i = (case i of Some (ImageStr []) \<Rightarrow> None | _ \<Rightarrow> i)"

definition demo_status :: "int \<Rightarrow> status_body" where
  "demo_status now =
     \<lparr> st_adSpotId = ''demo-spot-1'', st_currentBid = Some (125 / 100),
       st_currentWinner = Some (WinnerStr ''IceCo''), st_timeRemaining = Some 300,
       st_auctionEnded = False, st_winnerAdImage = Some (ImageStr ''/water-ad-demo.png''),
       st_bidHistory =
         [ \<lparr> bid_agentId = ''IceCo'', bid_amount = 50 / 100, bid_timestamp = now - 40000,
             bid_txHash = ''0x'' @ replicate 40 CHR ''a'', bid_thinking = None,
             bid_strategy = None, bid_reasoning = None,
             bid_reflection = Some
               ''Bid successfully placed at $0.50. Monitoring for competitor response.'' \<rparr>,
           \<lparr> bid_agentId = ''FizzUp'', bid_amount = 75 / 100, bid_timestamp = now - 30000,
             bid_txHash = ''0x'' @ replicate 40 CHR ''b'', bid_thinking = None,
             bid_strategy = None, bid_reasoning = None,
             bid_reflection = Some
               ''Successfully outbid competitor. Current leading bid is $0.75.'' \<rparr>,
           \<lparr> bid_agentId = ''IceCo'', bid_amount = 125 / 100, bid_timestamp = now - 20000,
             bid_txHash = ''0x'' @ replicate 40 CHR ''d'', bid_thinking = None,
             bid_strategy = None, bid_reasoning = None,
             bid_reflection = Some
               ''FizzUp has outbid us at $0.75. Increasing our bid to $1.25.'' \<rparr> ] \<rparr>"

text \<open>
  The handler \<open>GET\<close>. \<open>duration\<close> is \<open>AUCTION_DURATION_MS\<close> (lib/x402-config), \<open>now\<close> is
  \<open>Date.now()\<close>, \<open>getAdSpotRecord\<close> is the database lookup, which may throw (\<open>Inl\<close>) or
  find nothing (\<open>Inr None\<close>), and the last argument is the \<open>adSpotId\<close> query parameter.
  \<open>Math.floor\<close> of a quotient of integers is \<open>div\<close>.
\<close>

definition status_GET ::
  "int \<Rightarrow> int \<Rightarrow> (string \<Rightarrow> string + ad_spot_record option) \<Rightarrow> string option
     \<Rightarrow> status_response" where
  "status_GET duration now getAdSpotRecord param =
     (case param of
        None \<Rightarrow> Status400 ''adSpotId is required''
      | Some adSpotId \<Rightarrow>
          if adSpotId = [] then Status400 ''adSpotId is required''
          else if adSpotId = ''demo-spot-1'' then Status200 (demo_status now)
          else
            (case getAdSpotRecord adSpotId of
               Inl err \<Rightarrow> Status500 ''Failed to fetch auction status''
             | Inr None \<Rightarrow>
                 Status200
                   \<lparr> st_adSpotId = adSpotId, st_currentBid = None, st_currentWinner = None,
                     st_timeRemaining = None, st_auctionEnded = False,
                     st_winnerAdImage = None, st_bidHistory = [] \<rparr>
             | Inr (Some bidRecord) \<Rightarrow>
                 (let auctionEndTime = rec_auctionStartTime bidRecord + duration;
                      timeRemaining = max 0 ((auctionEndTime - now) div 1000)
                  in Status200
                       \<lparr> st_adSpotId = adSpotId,
                         st_currentBid = rec_currentBid bidRecord,
                         st_currentWinner = rec_currentWinner bidRecord,
                         st_timeRemaining = Some timeRemaining,
                         st_auctionEnded = bool_or_false (rec_auctionEnded bidRecord),
                         st_winnerAdImage = image_or_null (rec_winnerAdImage bidRecord),
                         st_bidHistory = rec_bidHistory bidRecord \<rparr>)))"

text \<open>A database that holds no record.\<close>

definition no_records :: "string \<Rightarrow> string + ad_spot_record option" where
  "no_records adSpotId = Inr None"

section \<open>The event log (the events route, src/unnamed/part_000)\<close>

text \<open>
  An event as the route returns it and the page consumes it. Its shape depends on its
  type; the record has the fields that some handler of the sources reads, each optional.
  The time stamp is a number of milliseconds on the server (\<open>'ts = int\<close>) and an ISO
  string, or nothing, in the JSON the page receives (\<open>'ts = string option\<close>).
\<close>

record winner =
  w_agentId :: string
  w_address :: "string option"

record 'ts event =
  e_type :: string
  e_agentId :: "string option"
  e_timestamp :: 'ts
  e_transactionHash :: "string option"
  e_thinking :: "string option"
  e_strategy :: "string option"
  e_proposedAmount :: "rat option"
  e_amount :: "rat option"
  e_reflection :: "string option"
  e_reasoning :: "string option"
  e_winner :: "winner option"
  e_finalBid :: "rat option"
  e_reason :: "string option"
  e_imageUrl :: "string option"
  e_status :: "string option"
  e_message :: "string option"
  e_taskId :: "string option"

definition mk_event :: "string \<Rightarrow> string option \<Rightarrow> 'ts \<Rightarrow> 'ts event" where
  "mk_event ty ag ts =
     \<lparr> e_type = ty, e_agentId = ag, e_timestamp = ts, e_transactionHash = None,
       e_thinking = None, e_strategy = None, e_proposedAmount = None, e_amount = None,
       e_reflection = None, e_reasoning = None, e_winner = None, e_finalBid = None,
       e_reason = None, e_imageUrl = None, e_status = None, e_message = None,
       e_taskId = None \<rparr>"

text \<open>
  A JavaScript \<open>Date\<close>: a time in milliseconds, or the invalid date, with which every
  comparison is false.
\<close>

datatype js_date = ValidDate int | InvalidDate

definition date_le :: "js_date \<Rightarrow> js_date \<Rightarrow> bool" where
  "date_le a b = (case (a, b) of (ValidDate x, ValidDate y) \<Rightarrow> x \<le> y | _ \<Rightarrow> False)"

definition date_lt :: "js_date \<Rightarrow> js_date \<Rightarrow> bool" where
  "date_lt a b = (case (a, b) of (ValidDate x, ValidDate y) \<Rightarrow> x < y | _ \<Rightarrow> False)"

text \<open>
  The mock events of the demo spot, made relative to the clock: the demo starts one
  minute before \<open>now\<close>. Payload fields that no handler of the sources reads (brand and
  product names, scraping and analytics data) are left out.
\<close>

definition allDemoEvents :: "int \<Rightarrow> int event list" where
  "allDemoEvents now =
     (let startTime = now - 60000 in
      [ mk_event ''agent_started'' (Some ''IceCo'') (startTime + 1000),
        mk_event ''agent_started'' (Some ''FizzUp'') (startTime + 2000),
        mk_event ''scraping_started'' (Some ''IceCo'') (startTime + 5000),
        mk_event ''scraping_completed'' (Some ''IceCo'') (startTime + 8000),
        mk_event ''analytics_payment'' (Some ''IceCo'') (startTime + 10000),
        mk_event ''analytics_received'' (Some ''IceCo'') (startTime + 12000),
        mk_event ''analysis_started'' (Some ''IceCo'') (startTime + 14000),
        (mk_event ''analysis_completed'' (Some ''IceCo'') (startTime + 18000))
          \<lparr> e_strategy := Some ''Aggressive bidding to secure the main banner.'',
            e_reasoning := Some (''The target audience of DevNews aligns perfectly with ''
              @ ''IceCo's premium hydration message for tech professionals.'') \<rparr>,
        (mk_event ''thinking'' (Some ''IceCo'') (startTime + 20000))
          \<lparr> e_thinking := Some (''Analyzing current auction state... Minimum bid is $0.10. ''
              @ ''I will start with $0.50.''),
            e_strategy := Some ''Lead-in bid strategy'',
            e_proposedAmount := Some (50 / 100) \<rparr>,
        (mk_event ''bid_placed'' (Some ''IceCo'') (startTime + 22000))
          \<lparr> e_amount := Some (50 / 100),
            e_transactionHash := Some (''0x'' @ replicate 40 CHR ''a'') \<rparr>,
        (mk_event ''reflection'' (Some ''IceCo'') (startTime + 24000))
          \<lparr> e_reflection := Some
              ''Bid successfully placed at $0.50. Monitoring for competitor response.'' \<rparr>,
        (mk_event ''thinking'' (Some ''FizzUp'') (startTime + 27000))
          \<lparr> e_thinking := Some
              ''Competitive bid observed from IceCo ($0.50). Increasing bid to $0.75.'',
            e_strategy := Some ''Aggressive capture'',
            e_proposedAmount := Some (75 / 100) \<rparr>,
        (mk_event ''bid_placed'' (Some ''FizzUp'') (startTime + 30000))
          \<lparr> e_amount := Some (75 / 100),
            e_transactionHash := Some (''0x'' @ replicate 40 CHR ''b'') \<rparr>,
        (mk_event ''refund'' (Some ''IceCo'') (startTime + 31000))
          \<lparr> e_amount := Some (50 / 100),
            e_transactionHash := Some (''0x'' @ replicate 40 CHR ''c'') \<rparr>,
        (mk_event ''reflection'' (Some ''FizzUp'') (startTime + 33000))
          \<lparr> e_reflection := Some
              ''Successfully outbid competitor. Current leading bid is $0.75.'' \<rparr>,
        (mk_event ''thinking'' (Some ''IceCo'') (startTime + 36000))
          \<lparr> e_thinking := Some ''FizzUp has outbid us at $0.75. Increasing our bid to $1.25.'',
            e_strategy := Some ''Counter-bid aggressive'',
            e_proposedAmount := Some (125 / 100) \<rparr>,
        (mk_event ''bid_placed'' (Some ''IceCo'') (startTime + 39000))
          \<lparr> e_amount := Some (125 / 100),
            e_transactionHash := Some (''0x'' @ replicate 40 CHR ''d'') \<rparr>,
        (mk_event ''refund'' (Some ''FizzUp'') (startTime + 40000))
          \<lparr> e_amount := Some (75 / 100),
            e_transactionHash := Some (''0x'' @ replicate 40 CHR ''e'') \<rparr>,
        (mk_event ''withdrawal'' (Some ''FizzUp'') (startTime + 43000))
          \<lparr> e_amount := Some (75 / 100),
            e_reasoning := Some ''Counter-bid exceeds maximum acquisition cost for this session.'',
            e_transactionHash := Some (''0x'' @ replicate 40 CHR ''f'') \<rparr>,
        (mk_event ''auction_ended'' None (startTime + 45000))
          \<lparr> e_winner := Some \<lparr> w_agentId = ''IceCo'', w_address = None \<rparr>,
            e_finalBid := Some (125 / 100),
            e_reason := Some ''No further active bidders. IceCo takes the spot.'' \<rparr>,
        (mk_event ''image_generation_update'' (Some ''IceCo'') (startTime + 50000))
          \<lparr> e_status := Some ''completed'',
            e_message := Some ''Ad image generated successfully.'',
            e_imageUrl := Some ''/water-ad-demo.png'' \<rparr>,
        (mk_event ''ad_image_ready'' None (startTime + 52000))
          \<lparr> e_winner := Some \<lparr> w_agentId = ''IceCo'', w_address = None \<rparr>,
            e_imageUrl := Some ''/water-ad-demo.png'' \<rparr> ])"

text \<open>
  \<open>getDemoEvents\<close>: an event is dropped when a watermark is given and the event is not
  after it, and kept when it is not after \<open>now\<close>.
\<close>

definition getDemoEvents :: "int \<Rightarrow> js_date option \<Rightarrow> int event list" where
  "getDemoEvents now since =
     filter (\<lambda>event.
        (let eventTime = ValidDate (e_timestamp event) in
         if (case since of None \<Rightarrow> False | Some d \<Rightarrow> date_le eventTime d) then False
         else date_le eventTime (ValidDate now)))
       (allDemoEvents now)"

text \<open>
  Modelled from the spec: \<open>getStoredEvents\<close> of lib/db, which is not among the sources.
  The spec's query contract: the events of the auction with a time stamp greater than the
  watermark, or the full history when there is none, ascending by time stamp. \<open>store\<close> is
  the append-only log, the events of each auction in the order they were appended;
  a stored event wraps the event. With the invalid date as the watermark the comparison
  is JavaScript's, which is false.
\<close>

record stored_event =
  se_event :: "int event"

definition getStoredEvents ::
  "(string \<Rightarrow> int event list) \<Rightarrow> string \<Rightarrow> js_date option \<Rightarrow> stored_event list" where
  "getStoredEvents store adSpotId since =
     map (\<lambda>e. \<lparr> se_event = e \<rparr>)
       (sort_key e_timestamp
          (filter (\<lambda>e. case since of None \<Rightarrow> True
                        | Some d \<Rightarrow> date_lt d (ValidDate (e_timestamp e)))
             (store adSpotId)))"

record events_body =
  eb_success :: bool
  eb_adSpotId :: string
  eb_events :: "int event list"
  eb_count :: nat
  eb_timestamp :: int

datatype events_response =
    Events200 events_body
  | Events500 string events_body

text \<open>
  The handler \<open>GET\<close> of the events route. \<open>parseDate\<close> is \<open>new Date(string)\<close>; the query
  parameter \<open>since\<close> is absent (\<open>None\<close>) or a string, and the empty string counts as
  absent. \<open>stored\<close> is the awaited \<open>getStoredEvents\<close>, which may throw.
\<close>

definition since_of :: "(string \<Rightarrow> js_date) \<Rightarrow> string option \<Rightarrow> js_date option" where
  "since_of parseDate sinceParam =
     (case sinceParam of None \<Rightarrow> None
      | Some p \<Rightarrow> if p = [] then None else Some (parseDate p))"

definition events_GET ::
  "int \<Rightarrow> (string \<Rightarrow> js_date) \<Rightarrow> (string \<Rightarrow> js_date option \<Rightarrow> string + stored_event list)
     \<Rightarrow> string \<Rightarrow> string option \<Rightarrow> events_response" where
  "events_GET now parseDate stored adSpotId sinceParam =
     (let since = since_of parseDate sinceParam
      in if adSpotId = ''demo-spot-1''
         then (let demoEvents = getDemoEvents now since
               in Events200 \<lparr> eb_success = True, eb_adSpotId = adSpotId,
                    eb_events = demoEvents, eb_count = length demoEvents,
                    eb_timestamp = now \<rparr>)
         else
           (case stored adSpotId since of
              Inl errorMessage \<Rightarrow>
                Events500 errorMessage
                  \<lparr> eb_success = False, eb_adSpotId = adSpotId, eb_events = [],
                    eb_count = 0, eb_timestamp = now \<rparr>
            | Inr storedEvents \<Rightarrow>
                (let events = map se_event storedEvents
                 in Events200 \<lparr> eb_success = True, eb_adSpotId = adSpotId,
                      eb_events = events, eb_count = length events,
                      eb_timestamp = now \<rparr>)))"

text \<open>
  \<open>poll\<close> is the spec's \<open>fetch(auctionId, sinceTimestamp?)\<close>: the events in the answer
  of the route, at server time \<open>now\<close>, to a request with the query parameter
  \<open>sinceParam\<close>. \<open>stored_in store\<close> is the store query over the log \<open>store\<close>, and \<open>history\<close>
  is what a poll is answered from: the regenerated list of mock events for the demo
  spot, and the stored events in ascending order otherwise.
\<close>

definition response_events :: "events_response \<Rightarrow> int event list" where
  "response_events r = (case r of Events200 b \<Rightarrow> eb_events b | Events500 m b \<Rightarrow> eb_events b)"

definition poll ::
  "int \<Rightarrow> (string \<Rightarrow> js_date) \<Rightarrow> (string \<Rightarrow> js_date option \<Rightarrow> string + stored_event list)
     \<Rightarrow> string \<Rightarrow> string option \<Rightarrow> int event list" where
  "poll now parseDate stored adSpotId sinceParam =
     response_events (events_GET now parseDate stored adSpotId sinceParam)"

definition stored_in ::
  "(string \<Rightarrow> int event list) \<Rightarrow> string \<Rightarrow> js_date option \<Rightarrow> string + stored_event list" where
  "stored_in store adSpotId since = Inr (getStoredEvents store adSpotId since)"

definition history :: "int \<Rightarrow> (string \<Rightarrow> int event list) \<Rightarrow> string \<Rightarrow> int event list" where
  "history now store adSpotId =
     (if adSpotId = ''demo-spot-1'' then allDemoEvents now
      else sort_key e_timestamp (store adSpotId))"

text \<open>A parser that reads every string as the time \<open>w\<close>, and a store without events.\<close>

definition fixed_parser :: "int \<Rightarrow> string \<Rightarrow> js_date" where
  "fixed_parser w p = ValidDate w"

definition empty_store :: "string \<Rightarrow> int event list" where
  "empty_store adSpotId = []"

section \<open>The auction page (src/app/auction/[adSpotId]/page.tsx)\<close>

datatype msg_type =
    MThinking | MBid | MReflection | MRefund | MWithdrawal | MAuctionEnded
  | MAdImageReady | MImageGenerationUpdate

record message =
  m_id :: string
  m_type :: msg_type
  m_agentId :: "string option"
  m_timestamp :: "string option"
  m_thinking :: "string option"
  m_strategy :: "string option"
  m_proposedAmount :: "rat option"
  m_amount :: "rat option"
  m_transactionHash :: "string option"
  m_reflection :: "string option"
  m_refundAmount :: "rat option"
  m_reasoning :: "string option"
  m_winner :: "winner option"
  m_finalBid :: "rat option"
  m_endReason :: "string option"
  m_isLoading :: "bool option"
  m_imageUrl :: "string option"
  m_status :: "string option"
  m_message :: "string option"
  m_taskId :: "string option"

definition mk_message :: "string \<Rightarrow> msg_type \<Rightarrow> string option \<Rightarrow> string option \<Rightarrow> message" where
  "mk_message i ty ag ts =
     \<lparr> m_id = i, m_type = ty, m_agentId = ag, m_timestamp = ts, m_thinking = None,
       m_strategy = None, m_proposedAmount = None, m_amount = None,
       m_transactionHash = None, m_reflection = None, m_refundAmount = None,
       m_reasoning = None, m_winner = None, m_finalBid = None, m_endReason = None,
       m_isLoading = None, m_imageUrl = None, m_status = None, m_message = None,
       m_taskId = None \<rparr>"

text \<open>
  The state the polling effect closes over: the set \<open>seenEventIds\<close>, and the React state
  \<open>messages\<close> and \<open>currentBid\<close> (a functional update of the state is applied at once).
  The clock gives \<open>Date.now()\<close>, already rendered as the decimal string the template
  literals make of it, and \<open>new Date().toISOString()\<close>.
\<close>

record page_state =
  seenEventIds :: "string set"
  messages :: "message list"
  currentBid :: "rat option"

record clock =
  now_ms :: string
  now_iso :: string

text \<open>A value in a template literal: \<open>undefined\<close> is printed as that word.\<close>

definition tpl :: "string option \<Rightarrow> string" where
  "tpl v = (case v of None \<Rightarrow> ''undefined'' | Some x \<Rightarrow> x)"

text \<open>\<open>a || b\<close> where both may be undefined.\<close>

definition opt_or :: "string option \<Rightarrow> string option \<Rightarrow> string option" where
  "opt_or a b = (case a of None \<Rightarrow> b | Some x \<Rightarrow> if x = [] then b else Some x)"

definition eventId_of :: "clock \<Rightarrow> string option event \<Rightarrow> string" where
  "eventId_of c data =
     e_type data @ ''-'' @ str_or (e_agentId data) ''system'' @ ''-''
       @ tpl (e_timestamp data) @ ''-'' @ str_or (e_transactionHash data) (now_ms c)"

definition add_message :: "message \<Rightarrow> page_state \<Rightarrow> page_state" where
  "add_message m st = st\<lparr>messages := messages st @ [m]\<rparr>"

text \<open>\<open>processEvent\<close>, one equation of \<open>handle_event\<close> per case of its switch.\<close>

definition handle_event :: "clock \<Rightarrow> string option event \<Rightarrow> page_state \<Rightarrow> page_state" where
  "handle_event c data st =
     (if e_type data = ''agent_status'' then st
      else if e_type data = ''thinking'' then
        add_message
          ((mk_message (tpl (e_agentId data) @ ''-thinking-'' @ now_ms c) MThinking
              (e_agentId data) (e_timestamp data))
             \<lparr> m_thinking := e_thinking data, m_strategy := e_strategy data,
               m_proposedAmount := e_proposedAmount data \<rparr>) st
      else if e_type data = ''bid_placed'' then
        (let bidExists = (\<exists>msg \<in> set (messages st).
               m_type msg = MBid \<and> m_agentId msg = e_agentId data
               \<and> m_transactionHash msg = e_transactionHash data);
             st' = (if bidExists then st
                    else add_message
                      ((mk_message (tpl (e_agentId data) @ ''-bid-'' @ now_ms c) MBid
                          (e_agentId data) (e_timestamp data))
                         \<lparr> m_amount := e_amount data,
                           m_transactionHash := e_transactionHash data,
                           m_isLoading := Some True \<rparr>) st)
         in st'\<lparr>currentBid := e_amount data\<rparr>)
      else if e_type data = ''reflection'' then
        st\<lparr>messages :=
             map (\<lambda>msg. if m_type msg = MBid \<and> m_agentId msg = e_agentId data
                            \<and> m_isLoading msg = Some True
                         then msg\<lparr>m_reflection := e_reflection data,
                                  m_isLoading := Some False\<rparr>
                         else msg) (messages st)\<rparr>
      else if e_type data = ''refund'' then
        add_message
          ((mk_message (tpl (e_agentId data) @ ''-refund-'' @ now_ms c) MRefund
              (e_agentId data) (e_timestamp data))
             \<lparr> m_refundAmount := e_amount data,
               m_transactionHash := e_transactionHash data \<rparr>) st
      else if e_type data = ''withdrawal'' then
        add_message
          ((mk_message (tpl (e_agentId data) @ ''-withdrawal-'' @ now_ms c) MWithdrawal
              (e_agentId data) (e_timestamp data))
             \<lparr> m_refundAmount := e_amount data, m_reasoning := e_reasoning data,
               m_transactionHash := e_transactionHash data \<rparr>) st
      else if e_type data = ''auction_ended'' then
        add_message
          ((mk_message (''auction-ended-'' @ now_ms c) MAuctionEnded None
              (e_timestamp data))
             \<lparr> m_winner := e_winner data, m_finalBid := e_finalBid data,
               m_endReason := e_reason data \<rparr>) st
      else if e_type data = ''ad_image_ready'' then
        add_message
          ((mk_message (''ad-image-ready-'' @ now_ms c) MAdImageReady
              (map_option w_agentId (e_winner data))
              (opt_or (e_timestamp data) (Some (now_iso c))))
             \<lparr> m_imageUrl := e_imageUrl data \<rparr>) st
      else if e_type data = ''image_generation_update'' then
        add_message
          ((mk_message (''image-gen-'' @ now_ms c) MImageGenerationUpdate
              (e_agentId data) (opt_or (e_timestamp data) (Some (now_iso c))))
             \<lparr> m_status := e_status data, m_message := e_message data,
               m_imageUrl := e_imageUrl data, m_taskId := e_taskId data \<rparr>) st
      else st)"

definition processEvent :: "clock \<Rightarrow> string option event \<Rightarrow> page_state \<Rightarrow> page_state" where
  "processEvent c data st =
     (let eventId = eventId_of c data
      in if eventId \<in> seenEventIds st then st
         else handle_event c data (st\<lparr>seenEventIds := insert eventId (seenEventIds st)\<rparr>))"

definition initial_page :: page_state where
  "initial_page = \<lparr> seenEventIds = {}, messages = [], currentBid = None \<rparr>"

subsection \<open>The terminal of each party\<close>

definition getBrandName :: "string \<Rightarrow> string" where
  "getBrandName agentId =
     (if agentId = ''IceCo'' \<or> agentId = ''AgentA'' then ''IceCo''
      else if agentId = ''FizzUp'' \<or> agentId = ''AgentB'' then ''FizzUp''
      else agentId)"

datatype log_type = Info | Success | Payment | Failure | Tool | Thinking

text \<open>
  A line of a terminal. The icons are emoji in the source and are named here; a text
  built with \<open>toFixed(2)\<close> keeps the amount it prints, and the link keeps the transaction
  hash it points to.
\<close>

datatype log_text =
    Plain string
  | ProposedBidText rat
  | AmountText "rat option"
  | BidPlacedText "rat option"
  | RefundText "rat option"
  | EndText "string option" "rat option"

record terminal_log =
  l_timestamp :: "string option"
  l_type :: log_type
  l_icon :: string
  l_message :: log_text
  l_details :: "log_text option"
  l_link :: "(string \<times> string) option"

definition mk_log :: "message \<Rightarrow> log_type \<Rightarrow> string \<Rightarrow> log_text \<Rightarrow> log_text option \<Rightarrow> terminal_log" where
  "mk_log msg ty icon text details =
     \<lparr> l_timestamp = m_timestamp msg, l_type = ty, l_icon = icon, l_message = text,
       l_details = details, l_link = None \<rparr>"

definition tx_link :: "message \<Rightarrow> string \<Rightarrow> (string \<times> string) option" where
  "tx_link msg label =
     (case m_transactionHash msg of None \<Rightarrow> None
      | Some h \<Rightarrow> if h = [] then None else Some (h, label))"

definition truthy :: "string option \<Rightarrow> bool" where
  "truthy v = (case v of None \<Rightarrow> False | Some x \<Rightarrow> x \<noteq> [])"

fun messageToTerminalLog :: "message \<Rightarrow> terminal_log list" where
  "messageToTerminalLog msg =
     (case m_type msg of
        MThinking \<Rightarrow>
          [mk_log msg Thinking ''brain'' (Plain ''THINKING'') (map_option Plain (m_thinking msg))]
          @ (if truthy (m_strategy msg)
             then [mk_log msg Info ''clipboard'' (Plain ''STRATEGY'')
                     (map_option Plain (m_strategy msg))]
             else [])
          @ (case m_proposedAmount msg of
               None \<Rightarrow> []
             | Some a \<Rightarrow> if a = 0 then []
                         else [mk_log msg Info ''thought'' (ProposedBidText a) None])
      | MBid \<Rightarrow>
          [mk_log msg Payment ''card'' (Plain ''INITIATING x402 PAYMENT'')
             (Some (AmountText (m_amount msg))),
           (mk_log msg Success ''check'' (BidPlacedText (m_amount msg)) None)
             \<lparr> l_link := tx_link msg ''View transaction on Basescan'' \<rparr>]
          @ (if truthy (m_reflection msg)
             then [mk_log msg Info ''chart'' (Plain ''POST-BID ANALYSIS'')
                     (map_option Plain (m_reflection msg))]
             else [])
      | MReflection \<Rightarrow> []
      | MRefund \<Rightarrow>
          [(mk_log msg Payment ''money'' (RefundText (m_refundAmount msg))
              (Some (Plain ''Outbid by competitor. Re-evaluating strategy...'')))
             \<lparr> l_link := tx_link msg ''View refund transaction'' \<rparr>]
      | MWithdrawal \<Rightarrow>
          [(mk_log msg Info ''white flag'' (Plain ''WITHDRAWING FROM AUCTION'')
              (map_option Plain (m_reasoning msg)))
             \<lparr> l_link := tx_link msg ''View refund transaction'' \<rparr>]
      | MImageGenerationUpdate \<Rightarrow>
          [mk_log msg
             (if m_status msg = Some ''started'' then Info
              else if m_status msg = Some ''progress'' then Tool
              else if m_status msg = Some ''completed'' then Success
              else if m_status msg = Some ''failed'' then Failure
              else Info)
             (if m_status msg = Some ''started'' then ''palette''
              else if m_status msg = Some ''progress'' then ''hourglass''
              else if m_status msg = Some ''completed'' then ''check mark''
              else if m_status msg = Some ''failed'' then ''cross''
              else ''palette'')
             (Plain (if m_status msg = Some ''started'' then ''GENERATING AD IMAGE''
                     else if m_status msg = Some ''progress''
                       then ''IMAGE GENERATION IN PROGRESS''
                     else if m_status msg = Some ''completed'' then ''AD IMAGE GENERATED''
                     else ''IMAGE GENERATION FAILED''))
             (map_option Plain (m_message msg))]
      | MAdImageReady \<Rightarrow>
          [mk_log msg Success ''palette'' (Plain ''AD IMAGE READY'')
             (Some (Plain ''Creative assets ready. Ad is now live!''))]
      | MAuctionEnded \<Rightarrow>
          (let won = (map_option w_agentId (m_winner msg) = m_agentId msg)
           in [mk_log msg (if won then Success else Info)
                 (if won then ''trophy'' else ''flag'')
                 (Plain (if won then ''AUCTION WON!'' else ''AUCTION ENDED''))
                 (Some (EndText (m_endReason msg) (m_finalBid msg)))]))"

text \<open>
  The split of the messages by agent: the body of the \<open>forEach\<close> as \<open>split_step\<close>, run
  over the messages from two empty terminals.
\<close>

definition split_step ::
  "terminal_log list \<times> terminal_log list \<Rightarrow> message
     \<Rightarrow> terminal_log list \<times> terminal_log list" where
  "split_step logs msg =
     (let brandName = getBrandName (str_or (m_agentId msg) [])
      in ((if brandName = ''IceCo'' \<or> m_type msg = MAuctionEnded
           then fst logs @ messageToTerminalLog msg else fst logs),
          (if brandName = ''FizzUp'' \<or> m_type msg = MAuctionEnded
           then snd logs @ messageToTerminalLog msg else snd logs)))"

definition split_logs :: "message list \<Rightarrow> terminal_log list \<times> terminal_log list" where
  "split_logs msgs = foldl split_step ([], []) msgs"

definition iceCoLogs :: "message list \<Rightarrow> terminal_log list" where
  "iceCoLogs msgs = fst (split_logs msgs)"

definition fizzUpLogs :: "message list \<Rightarrow> terminal_log list" where
  "fizzUpLogs msgs = snd (split_logs msgs)"

text \<open>
  The page after the last two lifecycle events of the demo history, the auction ended
  and the ad image ready, both naming IceCo as the winner.
\<close>

definition demo_lifecycle_page :: page_state where
  "demo_lifecycle_page =
     processEvent \<lparr> now_ms = ''1700000000002'', now_iso = ''2023-11-14T22:13:20.002Z'' \<rparr>
       ((mk_event ''ad_image_ready'' None (Some ''2023-11-14T22:13:12.000Z''))
          \<lparr> e_winner := Some \<lparr> w_agentId = ''IceCo'', w_address = None \<rparr>,
            e_imageUrl := Some ''/water-ad-demo.png'' \<rparr>)
       (processEvent \<lparr> now_ms = ''1700000000001'', now_iso = ''2023-11-14T22:13:20.001Z'' \<rparr>
          ((mk_event ''auction_ended'' None (Some ''2023-11-14T22:13:05.000Z''))
             \<lparr> e_winner := Some \<lparr> w_agentId = ''IceCo'', w_address = None \<rparr>,
               e_finalBid := Some (125 / 100),
               e_reason := Some ''No further active bidders. IceCo takes the spot.'' \<rparr>)
          initial_page)"

section \<open>The agent as a coordinator of timers and tasks\<close>

text \<open>
  The methods \<open>start\<close>, \<open>decideBidStrategy\<close>, \<open>startRefundMonitoring\<close>, \<open>monitorAuctionEnd\<close>
  and the three stop methods run on one JavaScript event loop: a piece of code runs
  without interruption until it awaits, and its continuation runs later, after whatever
  else the loop had to do. A timer made by \<open>setInterval\<close> calls its callback at every
  period, whether or not an earlier call of it has returned; \<open>clearInterval\<close> prevents the
  later calls and leaves alone a call that is suspended at an await. The state of the
  coordinator is the agent together with the loop's view of it:
  \<^item> \<open>intervals\<close>, the live timers made by \<open>setInterval\<close> and not yet cleared, each with
    its handle, its period in milliseconds and the monitor whose callback it calls;
  \<^item> \<open>previousBalance\<close>, the variable of that name that the callback of a refund monitor
    closes over, by the handle of the monitor (the variable outlives the timer; it is 0
    for a handle that no refund monitor has);
  \<^item> \<open>refundCalls\<close>, the calls made so far of the callback of a refund monitor, each
    suspended at one of its two awaits, with its local variables, or returned; a call
    is known by its position in the list;
  \<^item> \<open>endCalls\<close>, the number of calls of the callback of the auction-end monitor that are
    suspended at the status request (they hold no variable of their own);
  \<^item> \<open>pending\<close>, the number of callbacks queued by \<open>setTimeout\<close> or \<open>setImmediate\<close> that
    have not run yet (each calls \<open>decideBidStrategy\<close> if the agent is active);
  \<^item> the number of calls suspended at each other await: \<open>starting\<close> (a \<open>start\<close> reading
    the balance), \<open>awaitingBalance\<close> (a \<open>decideBidStrategy\<close> at its first await),
    \<open>awaitingBaseline\<close> (one inside \<open>startRefundMonitoring\<close>, past the guard, reading the
    baseline), \<open>inReasoning\<close> (one between the start of the monitor and its \<open>finally\<close>
    block) and \<open>generating\<close> (an auction-end callback awaiting the creative);
  \<^item> two counters of what has happened: \<open>decisionsBegun\<close>, the calls of
    \<open>decideBidStrategy\<close>, and \<open>creativeRuns\<close>, the times creative generation was entered.
  The auction id is left out: every call passes the id given to \<open>start\<close>. There is no
  clock: every continuation that exists may be the next to run. Two calls of the callback
  of one timer are in flight together when the awaits of the first last longer than the
  period, 2 seconds for the refund monitor and 5 seconds for the auction-end monitor.
\<close>

datatype monitor = RefundMon | EndMon

record interval =
  iv_handle :: nat
  iv_period :: nat
  iv_monitor :: monitor

text \<open>
  A call of the callback of the refund monitor with handle \<open>h\<close>: suspended at
  \<open>getUSDCBalance\<close>; suspended at the status request, holding \<open>currentBalance\<close> and
  \<open>refundAmount\<close>; or returned.
\<close>

datatype refund_call =
    AwaitsBalance nat
  | AwaitsStatus nat rat rat
  | Returned

record coordinator = agent +
  intervals :: "interval list"
  nextHandle :: nat
  previousBalance :: "nat \<Rightarrow> rat"
  refundCalls :: "refund_call list"
  endCalls :: nat
  pending :: nat
  starting :: nat
  awaitingBalance :: nat
  awaitingBaseline :: nat
  inReasoning :: nat
  generating :: nat
  decisionsBegun :: nat
  creativeRuns :: nat

definition new_coordinator :: "string \<Rightarrow> rat \<Rightarrow> coordinator" where
  "new_coordinator name mb =
     \<lparr> agentName = name, maxBid = mb, isActive = True,
       monitoringInterval = None, auctionEndMonitoringInterval = None,
       lastRefundAmount = None, currentAdSpotId = [], lastBidAmount = 0,
       isInAIReasoning = False, refundPending = False,
       intervals = [], nextHandle = 0, previousBalance = (\<lambda>h. 0), refundCalls = [],
       endCalls = 0, pending = 0, starting = 0, awaitingBalance = 0,
       awaitingBaseline = 0, inReasoning = 0, generating = 0, decisionsBegun = 0,
       creativeRuns = 0 \<rparr>"

definition is_refund :: "interval \<Rightarrow> bool" where
  "is_refund i = (iv_monitor i = RefundMon)"

definition is_end :: "interval \<Rightarrow> bool" where
  "is_end i = (iv_monitor i = EndMon)"

definition refundMonitors :: "coordinator \<Rightarrow> interval list" where
  "refundMonitors s = filter is_refund (intervals s)"

definition endMonitors :: "coordinator \<Rightarrow> interval list" where
  "endMonitors s = filter is_end (intervals s)"

definition setInterval :: "monitor \<Rightarrow> nat \<Rightarrow> coordinator \<Rightarrow> nat \<times> coordinator" where
  "setInterval m ms s =
     (nextHandle s,
      s\<lparr>intervals := intervals s @ [\<lparr> iv_handle = nextHandle s, iv_period = ms,
                                        iv_monitor = m \<rparr>],
        nextHandle := Suc (nextHandle s)\<rparr>)"

definition clearInterval :: "nat \<Rightarrow> coordinator \<Rightarrow> coordinator" where
  "clearInterval h s = s\<lparr>intervals := filter (\<lambda>i. iv_handle i \<noteq> h) (intervals s)\<rparr>"

definition stopRefundMonitoring :: "coordinator \<Rightarrow> coordinator" where
  "stopRefundMonitoring s =
     (case monitoringInterval s of
        None \<Rightarrow> s
      | Some h \<Rightarrow> (clearInterval h s)\<lparr>monitoringInterval := None\<rparr>)"

definition stopAuctionEndMonitoring :: "coordinator \<Rightarrow> coordinator" where
  "stopAuctionEndMonitoring s =
     (case auctionEndMonitoringInterval s of
        None \<Rightarrow> s
      | Some h \<Rightarrow> (clearInterval h s)\<lparr>auctionEndMonitoringInterval := None\<rparr>)"

definition stop :: "coordinator \<Rightarrow> coordinator" where
  "stop s = stopAuctionEndMonitoring (stopRefundMonitoring (s\<lparr>isActive := False\<rparr>))"

text \<open>\<open>monitorAuctionEnd\<close>: synchronous, a guard and a \<open>setInterval\<close> of 5 seconds.\<close>

definition monitorAuctionEnd :: "coordinator \<Rightarrow> coordinator" where
  "monitorAuctionEnd s =
     (case auctionEndMonitoringInterval s of
        Some h \<Rightarrow> s
      | None \<Rightarrow> (let (h, s') = setInterval EndMon 5000 s
                 in s'\<lparr>auctionEndMonitoringInterval := Some h\<rparr>))"

text \<open>
  \<open>startRefundMonitoring\<close> in its two parts: the guard, after which the call either
  returns (the monitor is running) or awaits the baseline balance, and the installation
  of the interval of 2 seconds once the baseline is read. The baseline becomes the
  \<open>previousBalance\<close> of the new monitor's callback.
\<close>

definition startRefundMonitoring_guard :: "coordinator \<Rightarrow> bool" where
  "startRefundMonitoring_guard s = (monitoringInterval s \<noteq> None)"

definition startRefundMonitoring_install :: "rat \<Rightarrow> coordinator \<Rightarrow> coordinator" where
  "startRefundMonitoring_install baseline s =
     (let (h, s') = setInterval RefundMon 2000 s
      in s'\<lparr>monitoringInterval := Some h,
            previousBalance := (previousBalance s')(h := baseline)\<rparr>)"

text \<open>
  \<open>decideBidStrategy\<close> up to its first await, and its end. The body between the start of
  the monitor and the end talks to the language model and the server; what matters of
  it here is how it ends: \<open>AuctionOver\<close> when the withdrawal is answered with
  \<open>auctionEnded\<close> or a request fails with status 410 (the agent deactivates itself and
  stops the refund monitor), \<open>Completed\<close> otherwise. Then the \<open>finally\<close> block runs.
\<close>

datatype decision_outcome = Completed | AuctionOver

definition decide_begin :: "coordinator \<Rightarrow> coordinator" where
  "decide_begin s =
     s\<lparr>refundPending := False, isInAIReasoning := True,
       awaitingBalance := Suc (awaitingBalance s),
       decisionsBegun := Suc (decisionsBegun s)\<rparr>"

definition decide_finally :: "coordinator \<Rightarrow> coordinator" where
  "decide_finally s =
     (let s1 = s\<lparr>isInAIReasoning := False\<rparr>
      in if refundPending s1 \<and> isActive s1
         then s1\<lparr>refundPending := False, pending := Suc (pending s1)\<rparr>
         else s1)"

definition decide_end :: "decision_outcome \<Rightarrow> coordinator \<Rightarrow> coordinator" where
  "decide_end outcome s =
     decide_finally
       (case outcome of
          Completed \<Rightarrow> s
        | AuctionOver \<Rightarrow> stopRefundMonitoring (s\<lparr>isActive := False\<rparr>))"

text \<open>The callback queued by \<open>setTimeout\<close> and \<open>setImmediate\<close>.\<close>

definition queued_callback :: "coordinator \<Rightarrow> coordinator" where
  "queued_callback s = (if isActive s then decide_begin s else s)"

text \<open>
  The winner as the refund monitor reads it,
  \<open>state.currentWinner?.agentId || state.currentWinner\<close>, and as the auction-end
  monitor reads it, \<open>state.currentWinner?.agentId\<close>, each compared with the agent's name;
  and the test \<open>state.winnerAdImage?.url\<close>.
\<close>

definition refund_sees_winner :: "json_winner option \<Rightarrow> string \<Rightarrow> bool" where
  "refund_sees_winner w name =
     (case w of
        None \<Rightarrow> False
      | Some (WinnerObj None) \<Rightarrow> False
      | Some (WinnerObj (Some a)) \<Rightarrow> a \<noteq> [] \<and> a = name
      | Some (WinnerStr a) \<Rightarrow> a = name)"

definition end_sees_winner :: "json_winner option \<Rightarrow> string \<Rightarrow> bool" where
  "end_sees_winner w name =
     (case w of
        Some (WinnerObj (Some a)) \<Rightarrow> a = name
      | _ \<Rightarrow> False)"

definition has_image_url :: "json_image option \<Rightarrow> bool" where
  "has_image_url i =
     (case i of
        Some (ImageObj (Some u)) \<Rightarrow> u \<noteq> []
      | _ \<Rightarrow> False)"

text \<open>
  The callback of the refund monitor with handle \<open>h\<close>, in its three parts. When the timer
  fires, the callback stops the monitor if the agent is inactive, and otherwise asks for
  the balance. When the balance has come, call \<open>n\<close> compares it with \<open>previousBalance\<close>
  and either asks for the status or records the balance and returns. When the status has
  come (\<open>None\<close>: the request threw), the call ignores the refund if the agent is winning,
  and otherwise stops the monitor and sets \<open>refundPending\<close> or queues a decision; in
  every case it records the balance.
\<close>

definition refund_fires :: "nat \<Rightarrow> coordinator \<Rightarrow> coordinator" where
  "refund_fires h s =
     (if \<not> isActive s then stopRefundMonitoring s
      else s\<lparr>refundCalls := refundCalls s @ [AwaitsBalance h]\<rparr>)"

definition refund_balance_read :: "nat \<Rightarrow> nat \<Rightarrow> rat \<Rightarrow> coordinator \<Rightarrow> coordinator" where
  "refund_balance_read n h currentBalance s =
     (if currentBalance > previousBalance s h
      then s\<lparr>refundCalls := (refundCalls s)
                [n := AwaitsStatus h currentBalance
                        (js_minus currentBalance (previousBalance s h))]\<rparr>
      else s\<lparr>refundCalls := (refundCalls s)[n := Returned],
             previousBalance := (previousBalance s)(h := currentBalance)\<rparr>)"

definition refund_status_read ::
  "nat \<Rightarrow> nat \<Rightarrow> rat \<Rightarrow> rat \<Rightarrow> status_body option \<Rightarrow> coordinator \<Rightarrow> coordinator" where
  "refund_status_read n h currentBalance refundAmount status s =
     (let s0 = s\<lparr>refundCalls := (refundCalls s)[n := Returned]\<rparr>
      in case status of
           None \<Rightarrow> s0\<lparr>previousBalance := (previousBalance s0)(h := currentBalance)\<rparr>
         | Some state \<Rightarrow>
             if refund_sees_winner (st_currentWinner state) (agentName s0)
             then s0\<lparr>previousBalance := (previousBalance s0)(h := currentBalance)\<rparr>
             else
               (let s1 = stopRefundMonitoring (s0\<lparr>lastRefundAmount := Some refundAmount\<rparr>);
                    s2 = (if isInAIReasoning s1 then s1\<lparr>refundPending := True\<rparr>
                          else s1\<lparr>pending := Suc (pending s1)\<rparr>)
                in s2\<lparr>previousBalance := (previousBalance s2)(h := currentBalance)\<rparr>))"

text \<open>
  The callback of the auction-end monitor from the answer of the status request (\<open>None\<close>:
  the request threw) up to the await of the creative, and what follows that await: the
  agent deactivates itself when the generation returns, and only logs when it throws.
\<close>

definition end_callback :: "status_body option \<Rightarrow> coordinator \<Rightarrow> coordinator" where
  "end_callback status s =
     (case status of
        None \<Rightarrow> s
      | Some state \<Rightarrow>
          if st_auctionEnded state \<and> end_sees_winner (st_currentWinner state) (agentName s)
          then
            (if \<not> has_image_url (st_winnerAdImage state)
             then (let s1 = stopAuctionEndMonitoring (stopRefundMonitoring s)
                   in s1\<lparr>generating := Suc (generating s1),
                         creativeRuns := Suc (creativeRuns s1)\<rparr>)
             else s)
          else s)"

definition generation_done :: "bool \<Rightarrow> coordinator \<Rightarrow> coordinator" where
  "generation_done returned s =
     (let s1 = s\<lparr>generating := generating s - 1\<rparr>
      in if returned then s1\<lparr>isActive := False\<rparr> else s1)"

text \<open>
  \<open>start\<close>: the call up to its await of the balance, and its continuation, which starts
  the auction-end monitor and the first decision.
\<close>

definition start_call :: "string \<Rightarrow> coordinator \<Rightarrow> coordinator" where
  "start_call adSpotId s = s\<lparr>currentAdSpotId := adSpotId, starting := Suc (starting s)\<rparr>"

definition start_resume :: "coordinator \<Rightarrow> coordinator" where
  "start_resume s = decide_begin (monitorAuctionEnd (s\<lparr>starting := starting s - 1\<rparr>))"

text \<open>
  What the event loop can do next:
  \<^item> \<open>StartResumes\<close>, \<open>BalanceRead\<close>, \<open>BaselineRead b\<close>, \<open>DecisionEnds outcome\<close>: a \<open>start\<close> or a
    decision goes on from its await (\<open>b\<close> is the balance read as the baseline);
  \<^item> \<open>CallbackRuns\<close>: a queued callback runs;
  \<^item> \<open>RefundFires h\<close>, \<open>EndFires h\<close>: the timer with handle \<open>h\<close> calls its callback;
  \<^item> \<open>RefundBalance n b\<close>, \<open>RefundStatus n status\<close>: call \<open>n\<close> of the refund monitor's
    callback receives the balance, or the answer of the status request;
  \<^item> \<open>EndStatus status\<close>: a call of the auction-end monitor's callback receives the
    answer of the status request; \<open>GenerationEnds returned\<close>: the creative returns or
    throws;
  \<^item> \<open>StopCalled\<close>: the owner of the agent calls \<open>stop\<close>.
  A step whose call or timer does not exist in the state leaves the state as it is.
\<close>

datatype occurrence =
    StartResumes
  | BalanceRead
  | BaselineRead rat
  | DecisionEnds decision_outcome
  | CallbackRuns
  | RefundFires nat
  | RefundBalance nat rat
  | RefundStatus nat "status_body option"
  | EndFires nat
  | EndStatus "status_body option"
  | GenerationEnds bool
  | StopCalled

fun step :: "occurrence \<Rightarrow> coordinator \<Rightarrow> coordinator" where
  "step StartResumes s = (if 0 < starting s then start_resume s else s)"
| "step BalanceRead s =
     (if 0 < awaitingBalance s
      then (if startRefundMonitoring_guard s
            then s\<lparr>awaitingBalance := awaitingBalance s - 1, inReasoning := Suc (inReasoning s)\<rparr>
            else s\<lparr>awaitingBalance := awaitingBalance s - 1,
                   awaitingBaseline := Suc (awaitingBaseline s)\<rparr>)
      else s)"
| "step (BaselineRead b) s =
     (if 0 < awaitingBaseline s
      then startRefundMonitoring_install b
             (s\<lparr>awaitingBaseline := awaitingBaseline s - 1, inReasoning := Suc (inReasoning s)\<rparr>)
      else s)"
| "step (DecisionEnds outcome) s =
     (if 0 < inReasoning s then decide_end outcome (s\<lparr>inReasoning := inReasoning s - 1\<rparr>) else s)"
| "step CallbackRuns s =
     (if 0 < pending s then queued_callback (s\<lparr>pending := pending s - 1\<rparr>) else s)"
| "step (RefundFires h) s =
     (if h \<in> set (map iv_handle (refundMonitors s)) then refund_fires h s else s)"
| "step (RefundBalance n currentBalance) s =
     (if n < length (refundCalls s)
      then (case refundCalls s ! n of
              AwaitsBalance h \<Rightarrow> refund_balance_read n h currentBalance s
            | AwaitsStatus h c a \<Rightarrow> s
            | Returned \<Rightarrow> s)
      else s)"
| "step (RefundStatus n status) s =
     (if n < length (refundCalls s)
      then (case refundCalls s ! n of
              AwaitsBalance h \<Rightarrow> s
            | AwaitsStatus h currentBalance refundAmount \<Rightarrow>
                refund_status_read n h currentBalance refundAmount status s
            | Returned \<Rightarrow> s)
      else s)"
| "step (EndFires h) s =
     (if h \<in> set (map iv_handle (endMonitors s)) then s\<lparr>endCalls := Suc (endCalls s)\<rparr> else s)"
| "step (EndStatus status) s =
     (if 0 < endCalls s then end_callback status (s\<lparr>endCalls := endCalls s - 1\<rparr>) else s)"
| "step (GenerationEnds returned) s =
     (if 0 < generating s then generation_done returned s else s)"
| "step StopCalled s = stop s"

definition run :: "occurrence list \<Rightarrow> coordinator \<Rightarrow> coordinator" where
  "run os s = foldl (\<lambda>t e. step e t) s os"

text \<open>
  A coordinator is launched by one call of \<open>start\<close> on a new agent; \<open>reachable\<close> are the
  states it can then be in.
\<close>

definition launch :: "string \<Rightarrow> rat \<Rightarrow> string \<Rightarrow> coordinator" where
  "launch name mb adSpotId = start_call adSpotId (new_coordinator name mb)"

definition reachable :: "coordinator \<Rightarrow> bool" where
  "reachable s = (\<exists>name mb adSpotId os. s = run os (launch name mb adSpotId))"

text \<open>The decisions in flight, and the calls of the refund monitor's callback in flight.\<close>

definition activeDecisions :: "coordinator \<Rightarrow> nat" where
  "activeDecisions s = awaitingBalance s + awaitingBaseline s + inReasoning s"

definition refundCallsInFlight :: "coordinator \<Rightarrow> nat" where
  "refundCallsInFlight s = length (filter (\<lambda>c. c \<noteq> Returned) (refundCalls s))"

text \<open>
  Example runs of the agent IceCo with a budget of 5 on the auction \<open>spot-7\<close>. The
  auction-end monitor gets the handle 0 and the first refund monitor the handle 1, with
  a baseline of 10. \<open>status_of w ended img\<close> is a status answer naming \<open>w\<close> as the winner,
  as an object with an \<open>agentId\<close>: \<open>won\<close> reports the auction ended and won by IceCo
  with no image yet, \<open>outbid\<close> reports FizzUp winning the open auction. In
  \<open>iceco_deciding\<close> the first decision is in flight, past the start of the refund
  monitor; in \<open>iceco_idle\<close> it has ended and both monitors run.
\<close>

definition status_of :: "string \<Rightarrow> bool \<Rightarrow> json_image option \<Rightarrow> status_body" where
  "status_of w ended img =
     \<lparr> st_adSpotId = ''spot-7'', st_currentBid = Some 2,
       st_currentWinner = Some (WinnerObj (Some w)), st_timeRemaining = Some 0,
       st_auctionEnded = ended, st_winnerAdImage = img, st_bidHistory = [] \<rparr>"

definition iceco :: coordinator where
  "iceco = launch ''IceCo'' 5 ''spot-7''"

definition iceco_deciding :: coordinator where
  "iceco_deciding = run [StartResumes, BalanceRead, BaselineRead 10] iceco"

definition iceco_idle :: coordinator where
  "iceco_idle = run [DecisionEnds Completed] iceco_deciding"

definition won :: status_body where
  "won = status_of ''IceCo'' True None"

definition outbid :: status_body where
  "outbid = status_of ''FizzUp'' False None"

text \<open>
  The refund monitor fires twice, the second time before the first call has its
  balance; both calls read a balance of 12 and are told that FizzUp is winning.
\<close>

definition outbid_twice :: "occurrence list" where
  "outbid_twice =
     [RefundFires 1, RefundFires 1, RefundBalance 0 12, RefundBalance 1 12,
      RefundStatus 0 (Some outbid), RefundStatus 1 (Some outbid)]"

text \<open>
  After that, the two queued callbacks run and the two decisions they begin go through
  \<open>startRefundMonitoring\<close> side by side: each passes the guard, then each reads a
  baseline of 12 and installs a monitor.
\<close>

definition decide_twice :: "occurrence list" where
  "decide_twice =
     [CallbackRuns, CallbackRuns, BalanceRead, BalanceRead, BaselineRead 12, BaselineRead 12]"

text \<open>
  What holds of the timers of the auction-end monitor in every state a coordinator can
  reach: the handles of the live timers are distinct and were all handed out already,
  and a live auction-end monitor is the one the agent holds in
  \<open>auctionEndMonitoringInterval\<close>.
\<close>

definition end_timers_ok :: "coordinator \<Rightarrow> bool" where
  "end_timers_ok s =
     (distinct (map iv_handle (intervals s))
      \<and> (\<forall>i \<in> set (intervals s).
            iv_handle i < nextHandle s
            \<and> (is_end i \<longrightarrow> auctionEndMonitoringInterval s = Some (iv_handle i))))"

section \<open>Theorems\<close>

text \<open>
  The doubles of the examples: \<open>0.08\<close>, \<open>4.92\<close> and \<open>16.1\<close> as the numbers they denote, and
  the two caps, \<open>5 - 0.08\<close>, which is the double \<open>4.92\<close>, and \<open>16.1 - 0.08\<close>, which is the
  double \<open>16.020000000000003\<close>.
\<close>

lemma double_0_08: "to_double (8 / 100) = 5764607523034235 / 72057594037927936"
  by code_simp

lemma double_4_92: "to_double (492 / 100) = 2769713770832855 / 562949953421312"
  by code_simp

lemma double_16_1: "to_double (161 / 10) = 2265873562520781 / 140737488355328"
  by code_simp

lemma cap_of_5: "js_minus 5 (to_double (8 / 100)) = to_double (492 / 100)"
  by code_simp

lemma cap_of_16_1:
  "js_minus (to_double (161 / 10)) (to_double (8 / 100)) = 2254614563452355 / 140737488355328"
  by code_simp

text \<open>
  C2 (as amended). A proposed amount strictly above the cap that the tool computes,
  \<open>maxBid - 0.08\<close> in the arithmetic of doubles, makes the place_bid tool return the
  over-budget answer with that cap as \<open>maxAllowedBid\<close> and \<open>totalBudget = maxBid\<close>,
  whatever the server would have answered (so never the too-low rejection, which only a
  server response produces); no bid request is posted and the agent is unchanged. With
  \<open>maxBid = 5\<close> the cap is the double \<open>4.92\<close>, and a bid of 6 is over budget.
\<close>

theorem placeBid_over_budget:
  assumes "proposedAmount > js_minus (maxBid ag) (to_double (8 / 100))"
  shows "placeBid ag server adSpotId proposedAmount reasoning
       = (OverBudget proposedAmount (js_minus (maxBid ag) (to_double (8 / 100))) (maxBid ag),
          ag, [])
     \<and> (maxBid ag = 5 \<and> proposedAmount = 6 \<longrightarrow>
          fst (placeBid ag server adSpotId proposedAmount reasoning)
            = OverBudget 6 (to_double (492 / 100)) 5)"
proof -
  have over: "placeBid ag server adSpotId proposedAmount reasoning
       = (OverBudget proposedAmount (js_minus (maxBid ag) (to_double (8 / 100))) (maxBid ag),
          ag, [])"
    unfolding placeBid_def Let_def using assms by (simp only: if_True)
  have "fst (placeBid ag server adSpotId proposedAmount reasoning)
            = OverBudget 6 (to_double (492 / 100)) 5"
    if "maxBid ag = 5" and "proposedAmount = 6"
    unfolding over using that cap_of_5 by (simp only: fst_conv)
  with over show ?thesis by blast
qed

theorem placeBid_over_budget_witness:
  "(6::rat) > js_minus (maxBid (new_agent ''SafetyAgent'' 5)) (to_double (8 / 100))
   \<and> placeBid (new_agent ''SafetyAgent'' 5) (\<lambda>rq. Thrown (Some 400) None ''too low'')
        None 6 ''go''
       = (OverBudget 6 (to_double (492 / 100)) 5, new_agent ''SafetyAgent'' 5, [])"
proof -
  have m: "maxBid (new_agent ''SafetyAgent'' 5) = 5" by (simp add: new_agent_def)
  have lt: "(6::rat) > js_minus (maxBid (new_agent ''SafetyAgent'' 5)) (to_double (8 / 100))"
    unfolding m cap_of_5 double_4_92 by simp
  from placeBid_over_budget [OF lt, of "\<lambda>rq. Thrown (Some 400) None ''too low''" None "''go''"]
  have "placeBid (new_agent ''SafetyAgent'' 5) (\<lambda>rq. Thrown (Some 400) None ''too low'')
        None 6 ''go''
       = (OverBudget 6 (js_minus (maxBid (new_agent ''SafetyAgent'' 5)) (to_double (8 / 100)))
            (maxBid (new_agent ''SafetyAgent'' 5)), new_agent ''SafetyAgent'' 5, [])"
    by (rule conjunct1)
  then have "placeBid (new_agent ''SafetyAgent'' 5) (\<lambda>rq. Thrown (Some 400) None ''too low'')
        None 6 ''go''
       = (OverBudget 6 (to_double (492 / 100)) 5, new_agent ''SafetyAgent'' 5, [])"
    unfolding m cap_of_5 .
  with lt show ?thesis by blast
qed

text \<open>
  The claim as stated, with the cap read as the exact difference, fails where the
  subtraction rounds upwards. With \<open>maxBid = 16.1\<close> the cap is \<open>16.020000000000003\<close>, which is
  above \<open>16.1 - 0.08\<close> whether \<open>0.08\<close> is read as the fraction or as the double. A bid of that
  amount is strictly above the exact difference and is not over budget: the request is
  posted, and the bid the server accepts is returned.
\<close>

theorem placeBid_rounded_cap_counterexample:
  "js_minus (to_double (161 / 10)) (to_double (8 / 100)) = 2254614563452355 / 140737488355328
   \<and> to_double (161 / 10) - 8 / 100 < 2254614563452355 / 140737488355328
   \<and> to_double (161 / 10) - to_double (8 / 100) < 2254614563452355 / 140737488355328
   \<and> fst (placeBid (new_agent ''IceCo'' (to_double (161 / 10)))
            (\<lambda>rq. Resolved 200 True (req_proposed rq) 300 ''0xabc'') None
            (2254614563452355 / 140737488355328) ''go'')
       = BidAccepted (2254614563452355 / 140737488355328) 300 ''0xabc''
   \<and> map req_proposed
        (snd (snd (placeBid (new_agent ''IceCo'' (to_double (161 / 10)))
            (\<lambda>rq. Resolved 200 True (req_proposed rq) 300 ''0xabc'') None
            (2254614563452355 / 140737488355328) ''go'')))
       = [2254614563452355 / 140737488355328]"
  by code_simp

text \<open>
  C8. \<open>processEventPayment\<close> succeeds, and logs the payment as sent, exactly when the
  event's amount exceeds neither the agent's \<open>maxBid\<close>, nor the safety threshold of 10,
  nor the wallet balance. Whenever one of the three is exceeded it returns
  \<open>success = false\<close> with no transaction hash, logs no payment and leaves the balance
  as it was.
\<close>

theorem processEventPayment_safe:
  "(bidAmount event > maxBid ag \<or> bidAmount event > 10 \<or> bidAmount event > wallet
      \<longrightarrow> \<not> success (fst (processEventPayment ag wallet tx event))
          \<and> txHash (fst (processEventPayment ag wallet tx event)) = None
          \<and> \<not> payment_attempted (processEventPayment ag wallet tx event)
          \<and> snd (snd (processEventPayment ag wallet tx event)) = wallet)
   \<and> (payment_attempted (processEventPayment ag wallet tx event)
      \<longrightarrow> bidAmount event \<le> maxBid ag \<and> bidAmount event \<le> 10 \<and> bidAmount event \<le> wallet)
   \<and> (success (fst (processEventPayment ag wallet tx event))
      \<longrightarrow> bidAmount event \<le> maxBid ag \<and> bidAmount event \<le> 10 \<and> bidAmount event \<le> wallet)"
  by (auto simp: processEventPayment_def payment_attempted_def SAFETY_THRESHOLD_def Let_def)

text \<open>
  The four cases of src/scripts/test-payment-safety.ts (an agent with \<open>maxBid = 5\<close>):
  2.5 with a balance of 100 is paid; 15 and 6 with a balance of 100, and 2 with a balance
  of 1, are refused.
\<close>

theorem processEventPayment_safe_witness:
  "success (fst (processEventPayment (new_agent ''SafetyAgent'' 5) 100 ''0x1f''
      \<lparr> eventId = ''evt_1'', ev_type = Impression, campaignId = ''camp_1'',
        creativeId = ''cr_1'', ev_timestamp = ''t'', bidAmount = 5 / 2 \<rparr>))
   \<and> \<not> success (fst (processEventPayment (new_agent ''SafetyAgent'' 5) 100 ''0x1f''
      \<lparr> eventId = ''evt_2'', ev_type = Click, campaignId = ''camp_1'',
        creativeId = ''cr_1'', ev_timestamp = ''t'', bidAmount = 15 \<rparr>))
   \<and> \<not> payment_attempted (processEventPayment (new_agent ''SafetyAgent'' 5) 100 ''0x1f''
      \<lparr> eventId = ''evt_3'', ev_type = Click, campaignId = ''camp_1'',
        creativeId = ''cr_1'', ev_timestamp = ''t'', bidAmount = 6 \<rparr>)
   \<and> snd (snd (processEventPayment (new_agent ''SafetyAgent'' 5) 1 ''0x1f''
      \<lparr> eventId = ''evt_4'', ev_type = Impression, campaignId = ''camp_1'',
        creativeId = ''cr_1'', ev_timestamp = ''t'', bidAmount = 2 \<rparr>)) = 1"
  using
    processEventPayment_safe [where ag = "new_agent ''SafetyAgent'' 5" and wallet = 100
      and tx = "''0x1f''" and event =
      "\<lparr> eventId = ''evt_2'', ev_type = Click, campaignId = ''camp_1'',
        creativeId = ''cr_1'', ev_timestamp = ''t'', bidAmount = 15 \<rparr>"]
    processEventPayment_safe [where ag = "new_agent ''SafetyAgent'' 5" and wallet = 100
      and tx = "''0x1f''" and event =
      "\<lparr> eventId = ''evt_3'', ev_type = Click, campaignId = ''camp_1'',
        creativeId = ''cr_1'', ev_timestamp = ''t'', bidAmount = 6 \<rparr>"]
    processEventPayment_safe [where ag = "new_agent ''SafetyAgent'' 5" and wallet = 1
      and tx = "''0x1f''" and event =
      "\<lparr> eventId = ''evt_4'', ev_type = Impression, campaignId = ''camp_1'',
        creativeId = ''cr_1'', ev_timestamp = ''t'', bidAmount = 2 \<rparr>"]
  by (simp add: new_agent_def processEventPayment_def SAFETY_THRESHOLD_def)

text \<open>
  C10 (as amended). The status query answers 400 with \<open>adSpotId is required\<close> when the
  parameter is missing or empty. For an \<open>adSpotId\<close> other than the built-in demo spot
  \<open>demo-spot-1\<close> for which the lookup finds no record, it answers 200 with the empty
  state: no current bid, no time remaining, an empty bid history, \<open>auctionEnded = false\<close>
  and no winner image. For \<open>demo-spot-1\<close> it answers 200 with the hard-coded demo
  auction, whatever the database holds or does. Every 200 answer that carries a
  \<open>timeRemaining\<close> (the demo spot's, which is 300, and every answer built from a record)
  carries one that is at least 0; an answer built from a record always carries one, and
  it is 0 once the deadline has passed.
\<close>

theorem status_GET_contract:
  "status_GET duration now db None = Status400 ''adSpotId is required''
   \<and> status_GET duration now db (Some []) = Status400 ''adSpotId is required''
   \<and> (adSpotId \<noteq> [] \<and> adSpotId \<noteq> ''demo-spot-1'' \<and> db adSpotId = Inr None \<longrightarrow>
        status_GET duration now db (Some adSpotId) =
          Status200 \<lparr> st_adSpotId = adSpotId, st_currentBid = None, st_currentWinner = None,
                      st_timeRemaining = None, st_auctionEnded = False,
                      st_winnerAdImage = None, st_bidHistory = [] \<rparr>)
   \<and> status_GET duration now db (Some ''demo-spot-1'') = Status200 (demo_status now)
   \<and> st_timeRemaining (demo_status now) = Some 300
   \<and> (adSpotId \<noteq> [] \<and> adSpotId \<noteq> ''demo-spot-1'' \<and> db adSpotId = Inr (Some r) \<longrightarrow>
        (\<exists>b t. status_GET duration now db (Some adSpotId) = Status200 b
               \<and> st_timeRemaining b = Some t \<and> 0 \<le> t
               \<and> (rec_auctionStartTime r + duration \<le> now \<longrightarrow> t = 0)))
   \<and> (status_GET duration now db param = Status200 b \<and> st_timeRemaining b = Some t
        \<longrightarrow> 0 \<le> t)"
  by (auto simp: status_GET_def demo_status_def Let_def
           split: option.splits sum.splits if_splits)

text \<open>
  A record whose auction started at time 0 with a duration of 300000 ms, asked at
  \<open>now = 1000000\<close> (after the deadline): the time remaining is 0, not negative.
\<close>

theorem status_GET_contract_witness:
  "status_GET 300000 1000000
      (\<lambda>i. Inr (if i = ''spot-7'' then Some \<lparr> rec_currentBid = Some 2,
           rec_currentWinner = Some (WinnerObj (Some ''AgentA'')), rec_auctionStartTime = 0,
           rec_auctionEnded = Some True, rec_winnerAdImage = None, rec_bidHistory = [] \<rparr>
         else None)) (Some ''spot-7'')
     = Status200 \<lparr> st_adSpotId = ''spot-7'', st_currentBid = Some 2,
         st_currentWinner = Some (WinnerObj (Some ''AgentA'')), st_timeRemaining = Some 0,
         st_auctionEnded = True, st_winnerAdImage = None, st_bidHistory = [] \<rparr>
   \<and> status_GET 300000 1000000 (\<lambda>i. Inr None) (Some ''spot-8'')
     = Status200 \<lparr> st_adSpotId = ''spot-8'', st_currentBid = None, st_currentWinner = None,
         st_timeRemaining = None, st_auctionEnded = False, st_winnerAdImage = None,
         st_bidHistory = [] \<rparr>"
  using status_GET_contract [where duration = 300000 and now = 1000000
      and db = "\<lambda>i. Inr None" and adSpotId = "''spot-8''"]
  by (simp add: status_GET_def Let_def bool_or_false_def image_or_null_def)

text \<open>
  The claim as stated fails at the demo spot: with no record at all in the database, the
  query for \<open>demo-spot-1\<close> answers with a current bid of 1.25 and a winner image.
\<close>

theorem status_GET_demo_counterexample:
  "no_records ''demo-spot-1'' = Inr None
   \<and> status_GET 300000 0 no_records (Some ''demo-spot-1'') = Status200 (demo_status 0)
   \<and> st_currentBid (demo_status 0) = Some (125 / 100)
   \<and> length (st_bidHistory (demo_status 0)) = 3
   \<and> st_winnerAdImage (demo_status 0) = Some (ImageStr ''/water-ad-demo.png'')"
  by (simp add: status_GET_def demo_status_def no_records_def)

subsection \<open>The event log\<close>

lemma demo_not_after_now: "e \<in> set (allDemoEvents now) \<Longrightarrow> e_timestamp e \<le> now"
  by (auto simp: allDemoEvents_def Let_def mk_event_def)

lemma demo_sorted: "sorted (map e_timestamp (allDemoEvents now))"
  by (simp add: allDemoEvents_def Let_def mk_event_def)

lemma getDemoEvents_valid:
  "getDemoEvents now (Some (ValidDate w)) = filter (\<lambda>e. w < e_timestamp e) (allDemoEvents now)"
  unfolding getDemoEvents_def
  by (rule filter_cong) (auto simp: date_le_def Let_def dest: demo_not_after_now)

lemma getDemoEvents_none: "getDemoEvents now None = allDemoEvents now"
  unfolding getDemoEvents_def
  by (simp add: date_le_def Let_def demo_not_after_now cong: filter_cong)

text \<open>
  In a list in ascending order, the elements above \<open>a\<close> are those in the window from \<open>a\<close>
  to \<open>b\<close> followed by those above \<open>b\<close>.
\<close>

lemma sorted_filter_window:
  fixes f :: "'a \<Rightarrow> int"
  shows "sorted (map f xs) \<Longrightarrow> a \<le> b \<Longrightarrow>
     filter (\<lambda>x. a < f x) xs
       = filter (\<lambda>x. a < f x \<and> f x \<le> b) xs @ filter (\<lambda>x. b < f x) xs"
proof (induction xs)
  case Nil
  then show ?case by simp
next
  case (Cons x xs)
  show ?case
  proof (cases "b < f x")
    case True
    with Cons.prems have all: "\<forall>y\<in>set xs. b < f y" by auto
    then have "filter (\<lambda>x. a < f x \<and> f x \<le> b) xs = []"
      and "filter (\<lambda>x. b < f x) xs = xs" and "filter (\<lambda>x. a < f x) xs = xs"
      using Cons.prems(2) by (auto simp: filter_empty_conv filter_id_conv)
    with True Cons.prems(2) show ?thesis by simp
  next
    case False
    with Cons show ?thesis by simp
  qed
qed

lemma poll_demo:
  "poll now parseDate stored ''demo-spot-1'' sp = getDemoEvents now (since_of parseDate sp)"
  by (simp add: poll_def events_GET_def response_events_def Let_def)

lemma poll_passes_through:
  "a \<noteq> ''demo-spot-1'' \<Longrightarrow> poll now parseDate stored a sp =
     (case stored a (since_of parseDate sp) of Inl m \<Rightarrow> [] | Inr es \<Rightarrow> map se_event es)"
  by (simp add: poll_def events_GET_def response_events_def Let_def split: sum.splits)

lemma stored_valid:
  "map se_event (getStoredEvents store a (Some (ValidDate w)))
     = filter (\<lambda>e. w < e_timestamp e) (sort_key e_timestamp (store a))"
  by (simp add: getStoredEvents_def o_def date_lt_def filter_sort)

lemma stored_none:
  "map se_event (getStoredEvents store a None) = sort_key e_timestamp (store a)"
  by (simp add: getStoredEvents_def o_def)

lemma poll_since:
  "p \<noteq> [] \<Longrightarrow> parseDate p = ValidDate w \<Longrightarrow>
   poll now parseDate (stored_in store) a (Some p)
     = filter (\<lambda>e. w < e_timestamp e) (history now store a)"
  by (cases "a = ''demo-spot-1''")
     (simp_all add: poll_demo poll_passes_through getDemoEvents_valid stored_valid
        history_def since_of_def stored_in_def)

lemma poll_all: "poll now parseDate (stored_in store) a None = history now store a"
  by (cases "a = ''demo-spot-1''")
     (simp_all add: poll_demo poll_passes_through getDemoEvents_none stored_none
        history_def since_of_def stored_in_def)

lemma history_sorted: "sorted (map e_timestamp (history now store a))"
  by (simp add: history_def demo_sorted)

text \<open>
  C4 (as amended). A poll answered at server time \<open>now\<close> with a watermark \<open>w\<close> returns
  exactly the events of the history as of that request whose time stamp is greater than
  \<open>w\<close>, never one at or below it; a poll without a watermark returns that whole history.
  For an auction other than the demo spot the answer does not depend on the server time
  (so a poll repeated with the same watermark over the same log returns the same events),
  and the route returns what the store query returns, nothing added or dropped. Over
  one history, for watermarks \<open>w \<le> w'\<close>, the poll from \<open>w\<close> is the events in the window
  from \<open>w\<close> to \<open>w'\<close> followed by the poll from \<open>w'\<close>: none skipped, none twice. The demo
  spot's history is generated anew from the server clock at every request, so these
  statements bind its polls only at one clock reading.
\<close>

theorem poll_contract:
  "(p \<noteq> [] \<and> parseDate p = ValidDate w \<longrightarrow>
      poll now parseDate (stored_in store) a (Some p)
        = filter (\<lambda>e. w < e_timestamp e) (history now store a)
      \<and> (\<forall>e \<in> set (poll now parseDate (stored_in store) a (Some p)). w < e_timestamp e))
   \<and> poll now parseDate (stored_in store) a None = history now store a
   \<and> (a \<noteq> ''demo-spot-1'' \<longrightarrow>
        poll now' parseDate (stored_in store) a sp = poll now parseDate (stored_in store) a sp
        \<and> poll now parseDate stored a sp =
            (case stored a (since_of parseDate sp) of
               Inl m \<Rightarrow> [] | Inr es \<Rightarrow> map se_event es))
   \<and> (p \<noteq> [] \<and> parseDate p = ValidDate w \<and> q \<noteq> [] \<and> parseDate q = ValidDate w'
        \<and> w \<le> w' \<longrightarrow>
        poll now parseDate (stored_in store) a (Some p)
          = filter (\<lambda>e. w < e_timestamp e \<and> e_timestamp e \<le> w') (history now store a)
            @ poll now parseDate (stored_in store) a (Some q))"
proof -
  have window: "filter (\<lambda>e. w < e_timestamp e) (history now store a)
      = filter (\<lambda>e. w < e_timestamp e \<and> e_timestamp e \<le> w') (history now store a)
        @ filter (\<lambda>e. w' < e_timestamp e) (history now store a)" if "w \<le> w'"
    using sorted_filter_window [OF history_sorted that] .
  show ?thesis
    by (auto simp: poll_since poll_all poll_passes_through window)
qed

text \<open>
  The demo spot polled at server time 100000 with the watermark 80000: the four events
  after it, at 83000, 85000, 90000 and 92000.
\<close>

theorem poll_contract_witness:
  "map e_timestamp
     (poll 100000 (fixed_parser 80000) (stored_in empty_store) ''demo-spot-1'' (Some ''w''))
     = [83000, 85000, 90000, 92000]
   \<and> length (poll 100000 (fixed_parser 80000) (stored_in empty_store) ''demo-spot-1'' None)
     = 22"
  using poll_contract [where p = "''w''" and parseDate = "fixed_parser 80000" and w = 80000
      and now = 100000 and store = empty_store and a = "''demo-spot-1''"]
  by (simp add: fixed_parser_def history_def allDemoEvents_def mk_event_def)

text \<open>
  The claim as stated fails at the demo spot. Polled twice with the same watermark 80000,
  at server times 100000 and 101000, it returns events with different time stamps; and a
  consumer that read all 22 events at server time 100000 and polls again at 160000 with
  the watermark 100000 is sent all 22 again.
\<close>

theorem poll_demo_counterexample:
  "map e_timestamp
     (poll 100000 (fixed_parser 80000) (stored_in empty_store) ''demo-spot-1'' (Some ''w''))
     = [83000, 85000, 90000, 92000]
   \<and> map e_timestamp
     (poll 101000 (fixed_parser 80000) (stored_in empty_store) ''demo-spot-1'' (Some ''w''))
     = [81000, 84000, 86000, 91000, 93000]
   \<and> length (poll 100000 (fixed_parser 100000) (stored_in empty_store) ''demo-spot-1'' None)
     = 22
   \<and> length (poll 160000 (fixed_parser 100000) (stored_in empty_store) ''demo-spot-1''
        (Some ''w'')) = 22"
  by (simp add: poll_def events_GET_def response_events_def since_of_def fixed_parser_def
        getDemoEvents_def date_le_def allDemoEvents_def mk_event_def)

subsection \<open>The auction page\<close>

lemma handle_event_seen: "seenEventIds (handle_event c data st) = seenEventIds st"
  by (simp add: handle_event_def add_message_def Let_def)

lemma processEvent_seen: "eventId_of c data \<in> seenEventIds st \<Longrightarrow> processEvent c data st = st"
  by (simp add: processEvent_def)

lemma processEvent_marks_seen: "eventId_of c data \<in> seenEventIds (processEvent c data st)"
  by (simp add: processEvent_def Let_def handle_event_seen)

text \<open>
  An event is skipped the second time when it is processed at the same reading of the
  clock, or when it carries a transaction hash (the key then does not depend on the
  clock): the state, and with it the message list, is unchanged.
\<close>

lemma processEvent_same_clock:
  "processEvent c data (processEvent c data st) = processEvent c data st"
  by (rule processEvent_seen) (rule processEvent_marks_seen)

lemma processEvent_with_hash:
  assumes "e_transactionHash data = Some h" and "h \<noteq> []"
  shows "processEvent c' data (processEvent c data st) = processEvent c data st"
proof -
  from assms have "eventId_of c' data = eventId_of c data"
    by (simp add: eventId_of_def str_or_def)
  then have "eventId_of c' data \<in> seenEventIds (processEvent c data st)"
    using processEvent_marks_seen [of c data st] by simp
  then show ?thesis by (rule processEvent_seen)
qed

text \<open>
  C6. An event without a transaction hash (a \<open>thinking\<close> event of the demo history) is
  keyed with the clock of the moment it is processed. Delivered a second time one
  millisecond later it has another key, is not recognised, and its message is appended
  again: the list grows from one message to two.
\<close>

theorem processEvent_redelivery_duplicates:
  "length (messages
     (processEvent \<lparr> now_ms = ''1700000000000'', now_iso = ''2023-11-14T22:13:20.000Z'' \<rparr>
        ((mk_event ''thinking'' (Some ''IceCo'') (Some ''2023-11-14T22:13:00.000Z''))
           \<lparr> e_thinking := Some ''Analyzing current auction state...'' \<rparr>)
        initial_page)) = 1
   \<and> length (messages
     (processEvent \<lparr> now_ms = ''1700000000001'', now_iso = ''2023-11-14T22:13:20.001Z'' \<rparr>
        ((mk_event ''thinking'' (Some ''IceCo'') (Some ''2023-11-14T22:13:00.000Z''))
           \<lparr> e_thinking := Some ''Analyzing current auction state...'' \<rparr>)
        (processEvent \<lparr> now_ms = ''1700000000000'', now_iso = ''2023-11-14T22:13:20.000Z'' \<rparr>
           ((mk_event ''thinking'' (Some ''IceCo'') (Some ''2023-11-14T22:13:00.000Z''))
              \<lparr> e_thinking := Some ''Analyzing current auction state...'' \<rparr>)
           initial_page))) = 2"
  by (simp add: processEvent_def eventId_of_def handle_event_def add_message_def
        mk_event_def mk_message_def initial_page_def str_or_def tpl_def Let_def)

text \<open>The two terminals as filters of the message list.\<close>

lemma foldl_split_step:
  "foldl split_step (ice, fizz) msgs =
     (ice @ concat (map messageToTerminalLog
        (filter (\<lambda>m. getBrandName (str_or (m_agentId m) []) = ''IceCo''
                      \<or> m_type m = MAuctionEnded) msgs)),
      fizz @ concat (map messageToTerminalLog
        (filter (\<lambda>m. getBrandName (str_or (m_agentId m) []) = ''FizzUp''
                      \<or> m_type m = MAuctionEnded) msgs)))"
proof (induction msgs arbitrary: ice fizz)
  case Nil
  then show ?case by simp
next
  case (Cons m msgs)
  show ?case
    unfolding foldl_Cons split_step_def [of "(ice, fizz)" m] Let_def fst_conv snd_conv
    by (simp only: Cons.IH) simp
qed

lemma auction_ended_log_nonempty:
  "m_type m = MAuctionEnded \<Longrightarrow> length (messageToTerminalLog m) = 1"
  by (simp add: Let_def)

lemma ad_image_ready_log_nonempty:
  "m_type m = MAdImageReady \<Longrightarrow> length (messageToTerminalLog m) = 1"
  by simp

text \<open>
  C7 (as amended). Each party's terminal is derived from the message list by a filter on
  the agent: it shows, in order, the lines of the messages whose agent maps to that
  party's brand, and of every auction-ended message. So an auction-ended message is
  replicated into both terminals. An ad-image-ready message is not: it carries the
  winner as its agent and is shown only in the terminal of the winner's brand.
\<close>

theorem split_logs_views:
  "iceCoLogs msgs =
     concat (map messageToTerminalLog
       (filter (\<lambda>m. getBrandName (str_or (m_agentId m) []) = ''IceCo''
                     \<or> m_type m = MAuctionEnded) msgs))
   \<and> fizzUpLogs msgs =
     concat (map messageToTerminalLog
       (filter (\<lambda>m. getBrandName (str_or (m_agentId m) []) = ''FizzUp''
                     \<or> m_type m = MAuctionEnded) msgs))
   \<and> (m \<in> set msgs \<and> m_type m = MAuctionEnded \<longrightarrow>
        messageToTerminalLog m \<noteq> []
        \<and> set (messageToTerminalLog m) \<subseteq> set (iceCoLogs msgs)
        \<and> set (messageToTerminalLog m) \<subseteq> set (fizzUpLogs msgs))
   \<and> (m_type m = MAdImageReady \<longrightarrow>
        iceCoLogs [m] = (if getBrandName (str_or (m_agentId m) []) = ''IceCo''
                         then messageToTerminalLog m else [])
        \<and> fizzUpLogs [m] = (if getBrandName (str_or (m_agentId m) []) = ''FizzUp''
                           then messageToTerminalLog m else []))"
proof -
  have ice: "iceCoLogs xs =
     concat (map messageToTerminalLog
       (filter (\<lambda>m. getBrandName (str_or (m_agentId m) []) = ''IceCo''
                     \<or> m_type m = MAuctionEnded) xs))" for xs
    by (simp add: iceCoLogs_def split_logs_def foldl_split_step)
  have fizz: "fizzUpLogs xs =
     concat (map messageToTerminalLog
       (filter (\<lambda>m. getBrandName (str_or (m_agentId m) []) = ''FizzUp''
                     \<or> m_type m = MAuctionEnded) xs))" for xs
    by (simp add: fizzUpLogs_def split_logs_def foldl_split_step)
  have ended: "messageToTerminalLog m \<noteq> []
        \<and> set (messageToTerminalLog m) \<subseteq> set (iceCoLogs msgs)
        \<and> set (messageToTerminalLog m) \<subseteq> set (fizzUpLogs msgs)"
    if "m \<in> set msgs" and "m_type m = MAuctionEnded"
  proof -
    from that(2) have "messageToTerminalLog m \<noteq> []"
      using auction_ended_log_nonempty [of m] by auto
    moreover from that have "set (messageToTerminalLog m) \<subseteq> set (iceCoLogs msgs)"
      unfolding ice by (auto simp del: messageToTerminalLog.simps)
    moreover from that have "set (messageToTerminalLog m) \<subseteq> set (fizzUpLogs msgs)"
      unfolding fizz by (auto simp del: messageToTerminalLog.simps)
    ultimately show ?thesis by blast
  qed
  have ready: "iceCoLogs [m] = (if getBrandName (str_or (m_agentId m) []) = ''IceCo''
                         then messageToTerminalLog m else [])
        \<and> fizzUpLogs [m] = (if getBrandName (str_or (m_agentId m) []) = ''FizzUp''
                           then messageToTerminalLog m else [])"
    if "m_type m = MAdImageReady"
    unfolding ice fizz using that by (simp del: messageToTerminalLog.simps)
  from ice [of msgs] fizz [of msgs] ended ready show ?thesis by blast
qed

lemma demo_lifecycle_messages:
  "map m_type (messages demo_lifecycle_page) = [MAuctionEnded, MAdImageReady]
   \<and> map m_agentId (messages demo_lifecycle_page) = [None, Some ''IceCo'']"
  by (simp add: demo_lifecycle_page_def processEvent_def eventId_of_def handle_event_def
        add_message_def mk_event_def mk_message_def initial_page_def str_or_def tpl_def
        opt_or_def Let_def)

theorem split_logs_views_witness:
  "map l_message (iceCoLogs (messages demo_lifecycle_page))
     = [Plain ''AUCTION ENDED'', Plain ''AD IMAGE READY'']
   \<and> Plain ''AUCTION ENDED'' \<in> l_message ` set (fizzUpLogs (messages demo_lifecycle_page))"
  using split_logs_views [of "messages demo_lifecycle_page" "hd (messages demo_lifecycle_page)"]
  by (simp add: demo_lifecycle_page_def processEvent_def eventId_of_def handle_event_def
        add_message_def mk_event_def mk_message_def initial_page_def str_or_def tpl_def
        opt_or_def getBrandName_def mk_log_def Let_def)

text \<open>
  The claim as stated fails for the ad-image-ready event: in that page the terminal of
  FizzUp, the losing party, has the auction-ended line only.
\<close>

theorem ad_image_ready_counterexample:
  "map m_type (messages demo_lifecycle_page) = [MAuctionEnded, MAdImageReady]
   \<and> map l_message (fizzUpLogs (messages demo_lifecycle_page)) = [Plain ''AUCTION ENDED'']
   \<and> map l_message (iceCoLogs (messages demo_lifecycle_page))
     = [Plain ''AUCTION ENDED'', Plain ''AD IMAGE READY'']"
  by (simp add: demo_lifecycle_page_def processEvent_def eventId_of_def handle_event_def
        add_message_def mk_event_def mk_message_def initial_page_def str_or_def tpl_def
        opt_or_def getBrandName_def mk_log_def iceCoLogs_def fizzUpLogs_def split_logs_def
        split_step_def Let_def)

subsection \<open>The coordinator: the stop methods and the guards\<close>

text \<open>
  Each stop method, called a second time, changes nothing, in every state. A start
  method whose monitor is running returns at its guard: \<open>monitorAuctionEnd\<close> leaves the
  state as it is, and a decision that reaches \<open>startRefundMonitoring\<close> goes on to its
  reasoning with no timer made.
\<close>

lemma stopRefundMonitoring_idem:
  "stopRefundMonitoring (stopRefundMonitoring s) = stopRefundMonitoring s"
  by (simp add: stopRefundMonitoring_def clearInterval_def split: option.splits)

lemma stopAuctionEndMonitoring_idem:
  "stopAuctionEndMonitoring (stopAuctionEndMonitoring s) = stopAuctionEndMonitoring s"
  by (simp add: stopAuctionEndMonitoring_def clearInterval_def split: option.splits)

lemma stop_idem: "stop (stop s) = stop s"
  by (simp add: stop_def stopRefundMonitoring_def stopAuctionEndMonitoring_def
        clearInterval_def split: option.splits)

lemma monitorAuctionEnd_running:
  "auctionEndMonitoringInterval s \<noteq> None \<Longrightarrow> monitorAuctionEnd s = s"
  by (auto simp: monitorAuctionEnd_def split: option.splits)

lemma startRefundMonitoring_running:
  "monitoringInterval s \<noteq> None \<Longrightarrow> 0 < awaitingBalance s \<Longrightarrow>
     intervals (step BalanceRead s) = intervals s
     \<and> monitoringInterval (step BalanceRead s) = monitoringInterval s
     \<and> awaitingBaseline (step BalanceRead s) = awaitingBaseline s
     \<and> inReasoning (step BalanceRead s) = Suc (inReasoning s)"
  by (simp add: startRefundMonitoring_guard_def)

subsection \<open>One monitor of each kind\<close>

text \<open>
  \<open>monitorAuctionEnd\<close> tests its guard and makes its timer in one piece, so the timers of
  the auction-end monitor are kept in order by every step, and a coordinator never has
  two of them.
\<close>

lemma end_timers_ok_stopRefund:
  "end_timers_ok s \<Longrightarrow> end_timers_ok (stopRefundMonitoring s)"
  by (auto simp: end_timers_ok_def stopRefundMonitoring_def clearInterval_def
        distinct_map_filter split: option.splits)

lemma end_timers_ok_stopEnd:
  "end_timers_ok s \<Longrightarrow> end_timers_ok (stopAuctionEndMonitoring s)"
  by (auto simp: end_timers_ok_def stopAuctionEndMonitoring_def clearInterval_def
        distinct_map_filter split: option.splits)

lemma end_timers_ok_monitorAuctionEnd:
  "end_timers_ok s \<Longrightarrow> end_timers_ok (monitorAuctionEnd s)"
  by (auto simp: end_timers_ok_def monitorAuctionEnd_def setInterval_def is_end_def
        split: option.splits)

lemma end_timers_ok_install:
  "end_timers_ok s \<Longrightarrow> end_timers_ok (startRefundMonitoring_install b s)"
  by (auto simp: end_timers_ok_def startRefundMonitoring_install_def setInterval_def
        is_end_def)

lemma end_timers_ok_update [simp]:
  "end_timers_ok (s\<lparr>isActive := a\<rparr>) = end_timers_ok s"
  "end_timers_ok (s\<lparr>lastRefundAmount := l\<rparr>) = end_timers_ok s"
  "end_timers_ok (s\<lparr>refundPending := r\<rparr>) = end_timers_ok s"
  "end_timers_ok (s\<lparr>isInAIReasoning := g\<rparr>) = end_timers_ok s"
  "end_timers_ok (s\<lparr>previousBalance := p\<rparr>) = end_timers_ok s"
  "end_timers_ok (s\<lparr>refundCalls := c\<rparr>) = end_timers_ok s"
  "end_timers_ok (s\<lparr>endCalls := n\<rparr>) = end_timers_ok s"
  "end_timers_ok (s\<lparr>pending := n\<rparr>) = end_timers_ok s"
  "end_timers_ok (s\<lparr>starting := n\<rparr>) = end_timers_ok s"
  "end_timers_ok (s\<lparr>awaitingBalance := n\<rparr>) = end_timers_ok s"
  "end_timers_ok (s\<lparr>awaitingBaseline := n\<rparr>) = end_timers_ok s"
  "end_timers_ok (s\<lparr>inReasoning := n\<rparr>) = end_timers_ok s"
  "end_timers_ok (s\<lparr>generating := n\<rparr>) = end_timers_ok s"
  "end_timers_ok (s\<lparr>decisionsBegun := n\<rparr>) = end_timers_ok s"
  "end_timers_ok (s\<lparr>creativeRuns := n\<rparr>) = end_timers_ok s"
  by (simp_all add: end_timers_ok_def)

lemma end_timers_ok_step: "end_timers_ok s \<Longrightarrow> end_timers_ok (step e s)"
proof (cases e)
  case StartResumes
  then show "end_timers_ok s \<Longrightarrow> end_timers_ok (step e s)"
    by (simp add: start_resume_def decide_begin_def end_timers_ok_monitorAuctionEnd)
next
  case BalanceRead
  then show "end_timers_ok s \<Longrightarrow> end_timers_ok (step e s)" by simp
next
  case (BaselineRead b)
  then show "end_timers_ok s \<Longrightarrow> end_timers_ok (step e s)"
    by (simp add: end_timers_ok_install)
next
  case (DecisionEnds outcome)
  then show "end_timers_ok s \<Longrightarrow> end_timers_ok (step e s)"
    by (cases outcome)
       (simp_all add: decide_end_def decide_finally_def Let_def end_timers_ok_stopRefund)
next
  case CallbackRuns
  then show "end_timers_ok s \<Longrightarrow> end_timers_ok (step e s)"
    by (simp add: queued_callback_def decide_begin_def)
next
  case (RefundFires h)
  then show "end_timers_ok s \<Longrightarrow> end_timers_ok (step e s)"
    by (simp add: refund_fires_def end_timers_ok_stopRefund)
next
  case (RefundBalance n b)
  then show "end_timers_ok s \<Longrightarrow> end_timers_ok (step e s)"
    by (simp add: refund_balance_read_def split: refund_call.splits)
next
  case (RefundStatus n status)
  then show "end_timers_ok s \<Longrightarrow> end_timers_ok (step e s)"
    by (simp add: refund_status_read_def Let_def end_timers_ok_stopRefund
          split: refund_call.splits option.splits)
next
  case (EndFires h)
  then show "end_timers_ok s \<Longrightarrow> end_timers_ok (step e s)" by simp
next
  case (EndStatus status)
  then show "end_timers_ok s \<Longrightarrow> end_timers_ok (step e s)"
    by (simp add: end_callback_def Let_def end_timers_ok_stopRefund end_timers_ok_stopEnd
          split: option.splits)
next
  case (GenerationEnds returned)
  then show "end_timers_ok s \<Longrightarrow> end_timers_ok (step e s)"
    by (simp add: generation_done_def Let_def)
next
  case StopCalled
  then show "end_timers_ok s \<Longrightarrow> end_timers_ok (step e s)"
    by (simp add: stop_def end_timers_ok_stopRefund end_timers_ok_stopEnd)
qed

lemma end_timers_ok_run: "end_timers_ok s \<Longrightarrow> end_timers_ok (run os s)"
  unfolding run_def by (induction os arbitrary: s) (simp_all add: end_timers_ok_step)

lemma end_timers_ok_launch: "end_timers_ok (launch name mb adSpotId)"
  by (simp add: end_timers_ok_def launch_def start_call_def new_coordinator_def)

lemma at_most_one_end_monitor:
  assumes "reachable s" shows "length (endMonitors s) \<le> 1"
proof -
  from assms have ok: "end_timers_ok s"
    by (auto simp: reachable_def end_timers_ok_run end_timers_ok_launch)
  have d: "distinct (map iv_handle (endMonitors s))"
    using ok by (simp add: end_timers_ok_def endMonitors_def distinct_map_filter)
  have same: "iv_handle i = iv_handle j"
    if "i \<in> set (endMonitors s)" and "j \<in> set (endMonitors s)" for i j
  proof -
    from that ok have "auctionEndMonitoringInterval s = Some (iv_handle i)"
      and "auctionEndMonitoringInterval s = Some (iv_handle j)"
      by (simp_all add: end_timers_ok_def endMonitors_def)
    then show ?thesis by simp
  qed
  show ?thesis
  proof (cases "endMonitors s")
    case Nil
    then show ?thesis by simp
  next
    case (Cons i rest)
    have "rest = []"
    proof (cases rest)
      case Nil
      then show ?thesis .
    next
      case (Cons j more)
      with \<open>endMonitors s = i # rest\<close> have m: "endMonitors s = i # j # more" by simp
      from d have "iv_handle i \<noteq> iv_handle j" unfolding m by simp
      moreover have "iv_handle i = iv_handle j" by (rule same) (simp_all add: m)
      ultimately show ?thesis by simp
    qed
    with Cons show ?thesis by simp
  qed
qed

text \<open>
  C9. \<open>startRefundMonitoring\<close> tests its guard, then awaits the baseline balance, then
  makes its timer: two calls that both pass the guard before either has its baseline
  each make a timer. IceCo is idle with one refund monitor, of handle 1. The monitor
  fires twice, the second time while the first call still awaits its balance; both
  calls detect the refund and, the agent being idle, each queues a decision. The two
  decisions pass the guard of \<open>startRefundMonitoring\<close> one after the other and then make
  the timers 2 and 3: two refund monitors are live, and the agent holds the handle 3
  only. \<open>stop\<close> clears the timer 3; the timer 2 stays, and its own callback, which stops
  the monitor through the handle the agent holds, does not clear it either.
\<close>

theorem two_refund_monitors:
  "map iv_handle (refundMonitors iceco_idle) = [1]
   \<and> monitoringInterval iceco_idle = Some 1
   \<and> refundCallsInFlight (run [RefundFires 1, RefundFires 1] iceco_idle) = 2
   \<and> map iv_handle (refundMonitors (run (outbid_twice @ decide_twice) iceco_idle)) = [2, 3]
   \<and> monitoringInterval (run (outbid_twice @ decide_twice) iceco_idle) = Some 3
   \<and> map iv_handle (refundMonitors
        (run (outbid_twice @ decide_twice @ [StopCalled]) iceco_idle)) = [2]
   \<and> map iv_handle (refundMonitors
        (run (outbid_twice @ decide_twice @ [StopCalled, RefundFires 2]) iceco_idle)) = [2]"
  by code_simp

subsection \<open>A refund during a decision\<close>

text \<open>
  What one call of the refund monitor's callback does when the status it asked for names
  another winner: while a decision is in flight (\<open>isInAIReasoning\<close>) it sets
  \<open>refundPending\<close> and queues nothing, so no decision begins; otherwise it queues one
  decision. In both cases it stops the refund monitor and records the refund. And a
  decision that ends with \<open>refundPending\<close> set, the agent being active, queues one
  decision and resets the flag; when the agent is not active it queues nothing.
\<close>

lemma outbid_while_deciding:
  assumes "n < length (refundCalls s)" and "refundCalls s ! n = AwaitsStatus h c a"
    and "\<not> refund_sees_winner (st_currentWinner state) (agentName s)"
    and "isInAIReasoning s"
  shows "refundPending (step (RefundStatus n (Some state)) s)
     \<and> pending (step (RefundStatus n (Some state)) s) = pending s
     \<and> decisionsBegun (step (RefundStatus n (Some state)) s) = decisionsBegun s
     \<and> activeDecisions (step (RefundStatus n (Some state)) s) = activeDecisions s
     \<and> monitoringInterval (step (RefundStatus n (Some state)) s) = None
     \<and> lastRefundAmount (step (RefundStatus n (Some state)) s) = Some a"
  using assms
  by (simp add: refund_status_read_def stopRefundMonitoring_def clearInterval_def
        activeDecisions_def Let_def split: option.splits)

lemma outbid_while_idle:
  assumes "n < length (refundCalls s)" and "refundCalls s ! n = AwaitsStatus h c a"
    and "\<not> refund_sees_winner (st_currentWinner state) (agentName s)"
    and "\<not> isInAIReasoning s"
  shows "refundPending (step (RefundStatus n (Some state)) s) = refundPending s
     \<and> pending (step (RefundStatus n (Some state)) s) = Suc (pending s)
     \<and> decisionsBegun (step (RefundStatus n (Some state)) s) = decisionsBegun s
     \<and> monitoringInterval (step (RefundStatus n (Some state)) s) = None
     \<and> lastRefundAmount (step (RefundStatus n (Some state)) s) = Some a"
  using assms
  by (simp add: refund_status_read_def stopRefundMonitoring_def clearInterval_def
        Let_def split: option.splits)

lemma decision_ends_with_refund_pending:
  assumes "0 < inReasoning s" and "refundPending s" and "isActive s"
  shows "pending (step (DecisionEnds Completed) s) = Suc (pending s)
     \<and> \<not> refundPending (step (DecisionEnds Completed) s)
     \<and> \<not> isInAIReasoning (step (DecisionEnds Completed) s)
     \<and> decisionsBegun (step (DecisionEnds Completed) s) = decisionsBegun s"
  using assms by (simp add: decide_end_def decide_finally_def Let_def)

lemma decision_ends_inactive:
  assumes "0 < inReasoning s" and "\<not> isActive s"
  shows "pending (step (DecisionEnds outcome) s) = pending s
     \<and> refundPending (step (DecisionEnds outcome) s) = refundPending s
     \<and> decisionsBegun (step (DecisionEnds outcome) s) = decisionsBegun s"
  using assms
  by (cases outcome)
     (simp_all add: decide_end_def decide_finally_def stopRefundMonitoring_def
        clearInterval_def Let_def split: option.splits)

text \<open>
  C1. Two decisions of one agent are in flight together, and a refund is forgotten.
  IceCo is idle after its first decision, the refund monitor running on a baseline of
  10. The monitor fires twice, the second time while the first call still awaits its
  balance; both calls read 12, both are told that FizzUp is winning, and each, finding
  no decision in flight, queues one: when the two queued callbacks have run, two
  decisions are in flight. And IceCo is in its first decision when the monitor reads 12
  and the status request fails: the call records 12 as the balance and returns, with
  \<open>refundPending\<close> unset and nothing queued. The decision then ends with nothing to
  requeue, and the next call of the monitor reads 12 again and sees no refund: no
  decision answers the outbid.
\<close>

theorem two_decisions_and_a_dropped_refund:
  "activeDecisions iceco_idle = 0
   \<and> decisionsBegun iceco_idle = 1
   \<and> refundCallsInFlight (run [RefundFires 1, RefundFires 1] iceco_idle) = 2
   \<and> pending (run outbid_twice iceco_idle) = 2
   \<and> activeDecisions (run (outbid_twice @ [CallbackRuns, CallbackRuns]) iceco_idle) = 2
   \<and> decisionsBegun (run (outbid_twice @ [CallbackRuns, CallbackRuns]) iceco_idle) = 3
   \<and> isInAIReasoning iceco_deciding
   \<and> \<not> refundPending
        (run [RefundFires 1, RefundBalance 0 12, RefundStatus 0 None] iceco_deciding)
   \<and> pending (run [RefundFires 1, RefundBalance 0 12, RefundStatus 0 None] iceco_deciding) = 0
   \<and> previousBalance
        (run [RefundFires 1, RefundBalance 0 12, RefundStatus 0 None] iceco_deciding) 1 = 12
   \<and> pending (run [RefundFires 1, RefundBalance 0 12, RefundStatus 0 None,
        DecisionEnds Completed, RefundFires 1, RefundBalance 1 12] iceco_deciding) = 0
   \<and> refundCallsInFlight (run [RefundFires 1, RefundBalance 0 12, RefundStatus 0 None,
        DecisionEnds Completed, RefundFires 1, RefundBalance 1 12] iceco_deciding) = 0
   \<and> decisionsBegun (run [RefundFires 1, RefundBalance 0 12, RefundStatus 0 None,
        DecisionEnds Completed, RefundFires 1, RefundBalance 1 12] iceco_deciding) = 1"
  by code_simp

subsection \<open>The auction-end monitor\<close>

text \<open>
  The timer of the auction-end monitor has a period of 5 seconds. One call of its
  callback enters the creative generation exactly when the status it receives reports
  the auction ended, names the agent as the winner in an object with an \<open>agentId\<close>, and
  carries no image with a non-empty \<open>url\<close>; it then has stopped both monitors through the
  handles the agent holds. In every other case it changes nothing.
\<close>

lemma monitorAuctionEnd_period:
  "\<forall>i \<in> set (endMonitors (monitorAuctionEnd s)) - set (endMonitors s). iv_period i = 5000"
  by (auto simp: monitorAuctionEnd_def setInterval_def endMonitors_def split: option.splits)

lemma end_callback_generates_iff:
  "creativeRuns (end_callback status s) = Suc (creativeRuns s) \<longleftrightarrow>
     (\<exists>state. status = Some state \<and> st_auctionEnded state
        \<and> end_sees_winner (st_currentWinner state) (agentName s)
        \<and> \<not> has_image_url (st_winnerAdImage state))"
  by (auto simp: end_callback_def stopRefundMonitoring_def stopAuctionEndMonitoring_def
        clearInterval_def Let_def split: option.splits)

lemma end_callback_idle:
  "creativeRuns (end_callback status s) \<noteq> Suc (creativeRuns s) \<Longrightarrow> end_callback status s = s"
  by (auto simp: end_callback_def stopRefundMonitoring_def stopAuctionEndMonitoring_def
        clearInterval_def Let_def split: option.splits)

lemma end_callback_stops_both:
  "creativeRuns (end_callback status s) = Suc (creativeRuns s) \<Longrightarrow>
     monitoringInterval (end_callback status s) = None
     \<and> auctionEndMonitoringInterval (end_callback status s) = None
     \<and> generating (end_callback status s) = Suc (generating s)"
  by (auto simp: end_callback_def stopRefundMonitoring_def stopAuctionEndMonitoring_def
        clearInterval_def Let_def split: option.splits if_splits)

text \<open>
  C3. The creative is generated twice for one auction, generated although an image
  exists, and not generated although the agent has won. IceCo is idle with both monitors
  running. The auction-end monitor fires twice, the second time while the first call
  still awaits the status; both calls receive the status \<open>won\<close> and each enters the
  creative generation: two generations are in flight. A call that receives \<open>won\<close> with the
  image given as the bare string \<open>/water-ad-demo.png\<close>, the shape in which the demo spot
  reports it, finds no \<open>url\<close> in it and enters the generation. A call that receives \<open>won\<close>
  with the winner given as the bare string \<open>IceCo\<close>, which the refund monitor reads as
  this agent winning, does not enter it, and the monitor runs on.
\<close>

theorem creative_generation_divergences:
  "creativeRuns iceco_idle = 0
   \<and> creativeRuns
        (run [EndFires 0, EndFires 0, EndStatus (Some won), EndStatus (Some won)] iceco_idle) = 2
   \<and> generating
        (run [EndFires 0, EndFires 0, EndStatus (Some won), EndStatus (Some won)] iceco_idle) = 2
   \<and> creativeRuns
        (run [EndFires 0,
              EndStatus (Some (won\<lparr>st_winnerAdImage := Some (ImageStr ''/water-ad-demo.png'')\<rparr>))]
           iceco_idle) = 1
   \<and> refund_sees_winner (Some (WinnerStr ''IceCo'')) (agentName iceco_idle)
   \<and> creativeRuns
        (run [EndFires 0, EndStatus (Some (won\<lparr>st_currentWinner := Some (WinnerStr ''IceCo'')\<rparr>))]
           iceco_idle) = 0
   \<and> map iv_handle (endMonitors
        (run [EndFires 0, EndStatus (Some (won\<lparr>st_currentWinner := Some (WinnerStr ''IceCo'')\<rparr>))]
           iceco_idle)) = [0]"
  by code_simp

subsection \<open>After a stop\<close>

text \<open>
  Once the agent is inactive it stays so, whatever happens next, and the only decision
  that can still begin is that of a \<open>start\<close> that was suspended: no queued callback, no
  end of a decision and no call of a monitor's callback begins one.
\<close>

lemma inactive_step:
  "\<not> isActive s \<Longrightarrow>
     \<not> isActive (step e s)
     \<and> decisionsBegun (step e s) + starting (step e s) = decisionsBegun s + starting s"
  by (cases e)
     (auto simp: start_resume_def decide_begin_def monitorAuctionEnd_def setInterval_def
        startRefundMonitoring_install_def decide_end_def decide_finally_def
        queued_callback_def refund_fires_def refund_balance_read_def refund_status_read_def
        end_callback_def generation_done_def stop_def stopRefundMonitoring_def
        stopAuctionEndMonitoring_def clearInterval_def Let_def
        split: option.splits decision_outcome.splits refund_call.splits)

lemma inactive_run:
  "\<not> isActive s \<Longrightarrow>
     \<not> isActive (run os s)
     \<and> decisionsBegun (run os s) + starting (run os s) = decisionsBegun s + starting s"
proof (induction os arbitrary: s)
  case Nil
  then show ?case by (simp add: run_def)
next
  case (Cons e os)
  from inactive_step [OF Cons.prems, of e] Cons.IH [of "step e s"]
  show ?case by (simp add: run_def)
qed

lemma stop_inactive: "\<not> isActive (stop s)"
  by (simp add: stop_def stopRefundMonitoring_def stopAuctionEndMonitoring_def
        clearInterval_def split: option.splits)

text \<open>
  C5. \<open>stop\<close> does not end the agent's activity. IceCo is stopped while its \<open>start\<close> is
  suspended at the read of the balance: the stop leaves an inactive agent with no timer
  and no decision begun. Then \<open>start\<close> resumes: it makes the auction-end monitor, of
  handle 0, and begins the first decision, which passes the guard of
  \<open>startRefundMonitoring\<close> and makes the refund monitor, of handle 1. The first call of
  the refund monitor's callback stops that monitor; the auction-end monitor stays, and
  when the auction is won the stopped agent generates the creative. And IceCo is
  stopped while its first decision is suspended at its first await: the stop clears the
  auction-end monitor and leaves no timer; then the decision resumes and makes the
  refund monitor.
\<close>

theorem stop_then_start_resumes:
  "\<not> isActive (run [StopCalled] iceco)
   \<and> intervals (run [StopCalled] iceco) = []
   \<and> decisionsBegun (run [StopCalled] iceco) = 0
   \<and> decisionsBegun (run [StopCalled, StartResumes] iceco) = 1
   \<and> activeDecisions (run [StopCalled, StartResumes] iceco) = 1
   \<and> map iv_handle (endMonitors (run [StopCalled, StartResumes] iceco)) = [0]
   \<and> map iv_handle (refundMonitors
        (run [StopCalled, StartResumes, BalanceRead, BaselineRead 10] iceco)) = [1]
   \<and> map iv_handle (intervals
        (run [StopCalled, StartResumes, BalanceRead, BaselineRead 10, RefundFires 1] iceco))
       = [0]
   \<and> creativeRuns
        (run [StopCalled, StartResumes, BalanceRead, BaselineRead 10, RefundFires 1,
              EndFires 0, EndStatus (Some won)] iceco) = 1
   \<and> intervals (run [StartResumes, StopCalled] iceco) = []
   \<and> map iv_handle (refundMonitors
        (run [StartResumes, StopCalled, BalanceRead, BaselineRead 10] iceco)) = [1]"
  by code_simp

end
